theory Spec2Isabelle
  imports Complex_Main "HOL-Library.Char_ord" "HOL-Library.List_Lexorder"
begin

section \<open>Vectors and matrices (GLM)\<close>

text \<open>
  The sources compute with \<^verbatim>\<open>glm::vec3\<close>, \<^verbatim>\<open>glm::vec4\<close> and \<^verbatim>\<open>glm::mat4\<close> over
  \<^verbatim>\<open>float\<close>. The scalars are idealised as \<^typ>\<open>real\<close>: rounding is not modelled.
  A \<^verbatim>\<open>mat4\<close> is stored by columns, as GLM does.
\<close>

datatype vec3 = Vec3 real real real

datatype vec4 = Vec4 real real real real

datatype mat4 = Mat4 vec4 vec4 vec4 vec4

fun vec4_add :: "vec4 \<Rightarrow> vec4 \<Rightarrow> vec4" where
  "vec4_add (Vec4 a b c d) (Vec4 a' b' c' d') = Vec4 (a + a') (b + b') (c + c') (d + d')"

fun vec4_scale :: "vec4 \<Rightarrow> real \<Rightarrow> vec4" where
  "vec4_scale (Vec4 a b c d) k = Vec4 (a * k) (b * k) (c * k) (d * k)"

text \<open>\<^verbatim>\<open>operator*(mat4, vec4)\<close>: the linear combination of the columns.\<close>

fun mat_vec :: "mat4 \<Rightarrow> vec4 \<Rightarrow> vec4" where
  "mat_vec (Mat4 c0 c1 c2 c3) (Vec4 x y z w) =
     vec4_add (vec4_add (vec4_add (vec4_scale c0 x) (vec4_scale c1 y)) (vec4_scale c2 z))
       (vec4_scale c3 w)"

text \<open>\<^verbatim>\<open>operator*(mat4, mat4)\<close>: column \<open>i\<close> of the product is the left matrix applied
  to column \<open>i\<close> of the right one.\<close>

fun mat_mul :: "mat4 \<Rightarrow> mat4 \<Rightarrow> mat4" where
  "mat_mul m (Mat4 c0 c1 c2 c3) = Mat4 (mat_vec m c0) (mat_vec m c1) (mat_vec m c2) (mat_vec m c3)"

definition glm_radians :: "real \<Rightarrow> real" where
  "glm_radians degrees = degrees * (pi / 180)"

text \<open>\<^verbatim>\<open>glm::scale(v)\<close> and \<^verbatim>\<open>glm::translate(v)\<close> of \<^verbatim>\<open>glm/gtx/transform.hpp\<close>, which
  start from the identity matrix.\<close>

fun glm_scale :: "vec3 \<Rightarrow> mat4" where
  "glm_scale (Vec3 x y z) = Mat4 (Vec4 x 0 0 0) (Vec4 0 y 0 0) (Vec4 0 0 z 0) (Vec4 0 0 0 1)"

fun glm_translate :: "vec3 \<Rightarrow> mat4" where
  "glm_translate (Vec3 x y z) = Mat4 (Vec4 1 0 0 0) (Vec4 0 1 0 0) (Vec4 0 0 1 0) (Vec4 x y z 1)"

text \<open>\<^verbatim>\<open>glm::normalize\<close>: the vector times the inverse square root of its squared length.\<close>

fun glm_normalize :: "vec3 \<Rightarrow> vec3" where
  "glm_normalize (Vec3 x y z) =
     (let n = sqrt (x * x + y * y + z * z) in Vec3 (x / n) (y / n) (z / n))"

text \<open>\<^verbatim>\<open>glm::rotate(angle, v)\<close>: the rotation about the normalised axis \<open>v\<close>, entry by entry
  as GLM builds it (\<open>Rotate[i][j]\<close> is row \<open>j\<close> of column \<open>i\<close>).\<close>

definition glm_rotate :: "real \<Rightarrow> vec3 \<Rightarrow> mat4" where
  "glm_rotate angle v =
     (let c = cos angle; s = sin angle in
      case glm_normalize v of Vec3 ax ay az \<Rightarrow>
        (let t0 = (1 - c) * ax; t1 = (1 - c) * ay; t2 = (1 - c) * az in
         Mat4 (Vec4 (c + t0 * ax) (t0 * ay + s * az) (t0 * az - s * ay) 0)
              (Vec4 (t1 * ax - s * az) (c + t1 * ay) (t1 * az + s * ax) 0)
              (Vec4 (t2 * ax + s * ay) (t2 * ay - s * ax) (c + t2 * az) 0)
              (Vec4 0 0 0 1)))"

section \<open>The uniform sink (ShaderManager)\<close>

text \<open>
  The shader manager is the uniform sink: every \<^verbatim>\<open>set...Value(name, value)\<close> call is one
  write, recorded in call order. \<^verbatim>\<open>m_pShaderManager\<close> is a pointer that the code compares
  with \<^verbatim>\<open>NULL\<close>, so it is an option: \<open>None\<close> is the null pointer, \<open>Some sink\<close> a
  shader manager that has received the writes \<open>sink\<close>. A method that guards its writes
  with \<^verbatim>\<open>NULL != m_pShaderManager\<close> maps the pointer to its new state; a method that
  calls through the pointer unguarded faults on \<open>None\<close>.
\<close>

datatype fault = NullDereference | OutOfBounds

datatype uniform_value =
    UMat4 mat4
  | UVec2 real real
  | UVec3 vec3
  | UVec4 vec4
  | UFloat real
  | UInt int
  | UBool bool
  | USampler2D int

type_synonym uniform_sink = "(string \<times> uniform_value) list"

definition setValue :: "string \<Rightarrow> uniform_value \<Rightarrow> uniform_sink \<Rightarrow> uniform_sink" where
  "setValue name v sink = sink @ [(name, v)]"

text \<open>The value a uniform holds: the last write to its name.\<close>

fun current_uniform :: "uniform_sink \<Rightarrow> string \<Rightarrow> uniform_value option" where
  "current_uniform [] name = None"
| "current_uniform ((k, v) # rest) name =
     (case current_uniform rest name of
        Some v' \<Rightarrow> Some v'
      | None \<Rightarrow> if k = name then Some v else None)"

definition g_ModelName :: string where "g_ModelName = ''model''"
definition g_ColorValueName :: string where "g_ColorValueName = ''objectColor''"
definition g_TextureValueName :: string where "g_TextureValueName = ''objectTexture''"
definition g_UseTextureName :: string where "g_UseTextureName = ''bUseTexture''"
definition g_UseLightingName :: string where "g_UseLightingName = ''bUseLighting''"

section \<open>SceneManager: transformations and colour\<close>

text \<open>\<^verbatim>\<open>SceneManager::SetTransformations\<close>. The C++ product
  \<^verbatim>\<open>translation * rotationZ * rotationY * rotationX * scale\<close> associates to the left.\<close>

definition SetTransformations ::
  "vec3 \<Rightarrow> real \<Rightarrow> real \<Rightarrow> real \<Rightarrow> vec3 \<Rightarrow> uniform_sink option \<Rightarrow> uniform_sink option" where
  "SetTransformations scaleXYZ XrotationDegrees YrotationDegrees ZrotationDegrees positionXYZ
       m_pShaderManager =
     (let scale = glm_scale scaleXYZ;
          rotationX = glm_rotate (glm_radians XrotationDegrees) (Vec3 1 0 0);
          rotationY = glm_rotate (glm_radians YrotationDegrees) (Vec3 0 1 0);
          rotationZ = glm_rotate (glm_radians ZrotationDegrees) (Vec3 0 0 1);
          translation = glm_translate positionXYZ;
          modelView =
            mat_mul (mat_mul (mat_mul (mat_mul translation rotationZ) rotationY) rotationX) scale
      in case m_pShaderManager of
           None \<Rightarrow> None
         | Some sink \<Rightarrow> Some (setValue g_ModelName (UMat4 modelView) sink))"

text \<open>The composition as the specification words it: the textbook matrices for a scale,
  the rotations about the X, Y and Z axes and a translation, applied in that order to a
  point (scale innermost, translation outermost).\<close>

definition spec_S :: "vec3 \<Rightarrow> mat4" where
  "spec_S s = (case s of Vec3 x y z \<Rightarrow>
     Mat4 (Vec4 x 0 0 0) (Vec4 0 y 0 0) (Vec4 0 0 z 0) (Vec4 0 0 0 1))"

definition spec_Rx :: "real \<Rightarrow> mat4" where
  "spec_Rx a = Mat4 (Vec4 1 0 0 0) (Vec4 0 (cos a) (sin a) 0) (Vec4 0 (- sin a) (cos a) 0)
     (Vec4 0 0 0 1)"

definition spec_Ry :: "real \<Rightarrow> mat4" where
  "spec_Ry a = Mat4 (Vec4 (cos a) 0 (- sin a) 0) (Vec4 0 1 0 0) (Vec4 (sin a) 0 (cos a) 0)
     (Vec4 0 0 0 1)"

definition spec_Rz :: "real \<Rightarrow> mat4" where
  "spec_Rz a = Mat4 (Vec4 (cos a) (sin a) 0 0) (Vec4 (- sin a) (cos a) 0 0) (Vec4 0 0 1 0)
     (Vec4 0 0 0 1)"

definition spec_T :: "vec3 \<Rightarrow> mat4" where
  "spec_T p = (case p of Vec3 x y z \<Rightarrow>
     Mat4 (Vec4 1 0 0 0) (Vec4 0 1 0 0) (Vec4 0 0 1 0) (Vec4 x y z 1))"

definition spec_compose :: "vec3 \<Rightarrow> real \<Rightarrow> real \<Rightarrow> real \<Rightarrow> vec3 \<Rightarrow> mat4" where
  "spec_compose s rotXDeg rotYDeg rotZDeg t =
     mat_mul (spec_T t)
       (mat_mul (spec_Rz (rotZDeg * pi / 180))
          (mat_mul (spec_Ry (rotYDeg * pi / 180))
             (mat_mul (spec_Rx (rotXDeg * pi / 180)) (spec_S s))))"

text \<open>\<^verbatim>\<open>SceneManager::SetShaderColor\<close>. \<^verbatim>\<open>setIntValue(g_UseTextureName, false)\<close> converts
  \<^verbatim>\<open>false\<close> to the integer 0.\<close>

definition SetShaderColor ::
  "real \<Rightarrow> real \<Rightarrow> real \<Rightarrow> real \<Rightarrow> uniform_sink option \<Rightarrow> uniform_sink option" where
  "SetShaderColor redColorValue greenColorValue blueColorValue alphaValue m_pShaderManager =
     (let currentColor = Vec4 redColorValue greenColorValue blueColorValue alphaValue
      in case m_pShaderManager of
           None \<Rightarrow> None
         | Some sink \<Rightarrow>
             Some (setValue g_ColorValueName (UVec4 currentColor)
                     (setValue g_UseTextureName (UInt 0) sink)))"

section \<open>SceneManager: materials\<close>

text \<open>\<^verbatim>\<open>OBJECT_MATERIAL\<close>, with the fields the sources read and write.\<close>

record OBJECT_MATERIAL =
  diffuseColor :: vec3
  specularColor :: vec3
  shininess :: real
  tag :: string

text \<open>The \<^verbatim>\<open>while\<close> loop of \<^verbatim>\<open>SceneManager::FindMaterial\<close>, from \<open>index\<close> on: the result
  is the final \<^verbatim>\<open>bFound\<close> and the out-parameter \<^verbatim>\<open>material\<close>, into which the first entry
  with the tag copies its two colours and its shininess.\<close>

fun FindMaterial_loop ::
  "OBJECT_MATERIAL list \<Rightarrow> string \<Rightarrow> OBJECT_MATERIAL \<Rightarrow> bool \<times> OBJECT_MATERIAL" where
  "FindMaterial_loop [] t material = (False, material)"
| "FindMaterial_loop (m # rest) t material =
     (if tag m = t
      then (True, material\<lparr>diffuseColor := diffuseColor m, specularColor := specularColor m,
                            shininess := shininess m\<rparr>)
      else FindMaterial_loop rest t material)"

text \<open>\<^verbatim>\<open>SceneManager::FindMaterial\<close>: \<^verbatim>\<open>false\<close> on an empty table; after the loop the
  function ends with \<^verbatim>\<open>return(true)\<close>, whatever \<^verbatim>\<open>bFound\<close> is.\<close>

definition FindMaterial ::
  "OBJECT_MATERIAL list \<Rightarrow> string \<Rightarrow> OBJECT_MATERIAL \<Rightarrow> bool \<times> OBJECT_MATERIAL" where
  "FindMaterial m_objectMaterials t material =
     (if length m_objectMaterials = 0 then (False, material)
      else (case FindMaterial_loop m_objectMaterials t material of
              (bFound, material') \<Rightarrow> (True, material')))"

text \<open>\<^verbatim>\<open>SceneManager::SetShaderMaterial\<close>. The local \<^verbatim>\<open>OBJECT_MATERIAL material;\<close> is declared
  without an initialiser: its starting value \<open>material0\<close> is whatever the stack holds. The
  three writes go through \<^verbatim>\<open>m_pShaderManager\<close> without a null check.\<close>

definition SetShaderMaterial ::
  "OBJECT_MATERIAL \<Rightarrow> OBJECT_MATERIAL list \<Rightarrow> string \<Rightarrow> uniform_sink option
     \<Rightarrow> fault + uniform_sink option" where
  "SetShaderMaterial material0 m_objectMaterials materialTag m_pShaderManager =
     (if length m_objectMaterials > 0
      then (case FindMaterial m_objectMaterials materialTag material0 of
              (bReturn, material) \<Rightarrow>
                if bReturn
                then (case m_pShaderManager of
                        None \<Rightarrow> Inl NullDereference
                      | Some sink \<Rightarrow>
                          Inr (Some
                            (setValue ''material.shininess'' (UFloat (shininess material))
                              (setValue ''material.specularColor'' (UVec3 (specularColor material))
                                (setValue ''material.diffuseColor''
                                   (UVec3 (diffuseColor material)) sink)))))
                else Inr m_pShaderManager)
      else Inr m_pShaderManager)"

section \<open>OpenGL texture objects and the image decoder\<close>

text \<open>
  The OpenGL context, as far as the texture code uses it: the set of texture names that
  are alive, and the calls made, in order. \<^verbatim>\<open>glGenTextures\<close> hands out a name of its own
  choice; the name it returns is an input of the model (OpenGL promises that it is not
  zero and was not in use). \<^verbatim>\<open>glDeleteTextures\<close> ignores the name 0 and names that are
  not alive.
\<close>

datatype pixel_format = GL_RED | GL_RGB | GL_RGBA | GL_RGB8 | GL_RGBA8

datatype tex_pname =
  GL_TEXTURE_WRAP_S | GL_TEXTURE_WRAP_T | GL_TEXTURE_MIN_FILTER | GL_TEXTURE_MAG_FILTER

datatype tex_pvalue = GL_REPEAT | GL_LINEAR | GL_LINEAR_MIPMAP_LINEAR

datatype gl_call =
    GlGenTextures nat
  | GlBindTexture nat
  | GlTexParameteri tex_pname tex_pvalue
  | GlTexImage2D pixel_format int int pixel_format
  | GlGenerateMipmap
  | GlDeleteTextures nat

record gl_context =
  textures :: "nat set"
  calls :: "gl_call list"

definition gl_log :: "gl_call \<Rightarrow> gl_context \<Rightarrow> gl_context" where
  "gl_log c gl = gl\<lparr>calls := calls gl @ [c]\<rparr>"

definition glGenTextures :: "nat \<Rightarrow> gl_context \<Rightarrow> gl_context" where
  "glGenTextures name gl = gl_log (GlGenTextures name) (gl\<lparr>textures := insert name (textures gl)\<rparr>)"

definition glDeleteTextures :: "nat \<Rightarrow> gl_context \<Rightarrow> gl_context" where
  "glDeleteTextures name gl =
     gl_log (GlDeleteTextures name) (gl\<lparr>textures := textures gl - {name}\<rparr>)"

definition glBindTexture :: "nat \<Rightarrow> gl_context \<Rightarrow> gl_context" where
  "glBindTexture name gl = gl_log (GlBindTexture name) gl"

definition glTexParameteri :: "tex_pname \<Rightarrow> tex_pvalue \<Rightarrow> gl_context \<Rightarrow> gl_context" where
  "glTexParameteri pname v gl = gl_log (GlTexParameteri pname v) gl"

definition glTexImage2D ::
  "pixel_format \<Rightarrow> int \<Rightarrow> int \<Rightarrow> pixel_format \<Rightarrow> gl_context \<Rightarrow> gl_context" where
  "glTexImage2D internalformat w h format gl = gl_log (GlTexImage2D internalformat w h format) gl"

definition glGenerateMipmap :: "gl_context \<Rightarrow> gl_context" where
  "glGenerateMipmap gl = gl_log GlGenerateMipmap gl"

text \<open>What \<^verbatim>\<open>stbi_load(path, &width, &height, &channels, 0)\<close> reports for a file: nothing
  when it cannot decode it, otherwise the size and the channel count (the pixels are not
  modelled, nor is the vertical flip). The files are an input of the model.\<close>

record image =
  width :: int
  height :: int
  channels :: int

type_synonym decoder = "string \<Rightarrow> image option"

section \<open>SceneManager: the texture registry (tag to handle map)\<close>

text \<open>\<^verbatim>\<open>SceneManager::loadTextureFromFile(filePath, outTex, flipVertically)\<close>: the result is
  the returned flag, the out-parameter \<^verbatim>\<open>outTex\<close> and the OpenGL context. \<open>name\<close> is the
  name \<^verbatim>\<open>glGenTextures\<close> hands out if it is called.\<close>

definition loadTextureFromFile ::
  "decoder \<Rightarrow> nat \<Rightarrow> string \<Rightarrow> nat \<Rightarrow> gl_context \<Rightarrow> bool \<times> nat \<times> gl_context" where
  "loadTextureFromFile stbi_load name filePath outTex gl =
     (case stbi_load filePath of
        None \<Rightarrow> (False, outTex, gl)
      | Some data \<Rightarrow>
          (case (if channels data = 1 then Some GL_RED
                 else if channels data = 3 then Some GL_RGB
                 else if channels data = 4 then Some GL_RGBA
                 else None) of
             None \<Rightarrow> (False, outTex, gl)
           | Some format \<Rightarrow>
               (True, name,
                glBindTexture 0
                  (glTexParameteri GL_TEXTURE_MAG_FILTER GL_LINEAR
                    (glTexParameteri GL_TEXTURE_MIN_FILTER GL_LINEAR_MIPMAP_LINEAR
                      (glTexParameteri GL_TEXTURE_WRAP_T GL_REPEAT
                        (glTexParameteri GL_TEXTURE_WRAP_S GL_REPEAT
                          (glGenerateMipmap
                            (glTexImage2D format (width data) (height data) format
                              (glBindTexture name (glGenTextures name gl)))))))))))"

text \<open>\<^verbatim>\<open>std::map<std::string, GLuint> m_textureMap\<close>: the entries in key order, one per
  key. \<open>map_find\<close> is \<^verbatim>\<open>find\<close>, \<open>map_assign\<close> is \<^verbatim>\<open>m[key] = value\<close>.\<close>

type_synonym texture_map = "(string \<times> nat) list"

fun map_find :: "texture_map \<Rightarrow> string \<Rightarrow> nat option" where
  "map_find [] key = None"
| "map_find ((k, v) # rest) key = (if k = key then Some v else map_find rest key)"

fun map_assign :: "texture_map \<Rightarrow> string \<Rightarrow> nat \<Rightarrow> texture_map" where
  "map_assign [] key value = [(key, value)]"
| "map_assign ((k, v) # rest) key value =
     (if k = key then (key, value) # rest
      else if key < k then (key, value) # (k, v) # rest
      else (k, v) # map_assign rest key value)"




text \<open>\<^verbatim>\<open>SceneManager::DestroyGLTextures\<close>, the map variant: the loop over the entries, then
  \<^verbatim>\<open>m_textureMap.clear()\<close>.\<close>

fun DestroyGLTextures_loop :: "texture_map \<Rightarrow> gl_context \<Rightarrow> gl_context" where
  "DestroyGLTextures_loop [] gl = gl"
| "DestroyGLTextures_loop ((k, v) # rest) gl =
     DestroyGLTextures_loop rest (if v \<noteq> 0 then glDeleteTextures v gl else gl)"

definition DestroyGLTextures :: "texture_map \<times> gl_context \<Rightarrow> texture_map \<times> gl_context" where
  "DestroyGLTextures st =
     (case st of (m_textureMap, gl) \<Rightarrow> ([], DestroyGLTextures_loop m_textureMap gl))"


text \<open>The invariant of the registry and the OpenGL context together: the map's keys are
  in strictly increasing order (what \<^verbatim>\<open>std::map\<close> maintains), no two tags share a handle,
  every handle in the map names a live texture, and none is 0.\<close>

definition registry_ok :: "texture_map \<times> gl_context \<Rightarrow> bool" where
  "registry_ok st =
     (case st of (m, gl) \<Rightarrow>
        sorted_wrt (<) (map fst m) \<and> distinct (map snd m)
        \<and> snd ` set m \<subseteq> textures gl \<and> 0 \<notin> snd ` set m)"

text \<open>\<^verbatim>\<open>SceneManager::LoadTexture(filepath)\<close>: the result is the returned handle and the
  OpenGL context.\<close>

definition LoadTexture :: "decoder \<Rightarrow> nat \<Rightarrow> string \<Rightarrow> gl_context \<Rightarrow> nat \<times> gl_context" where
  "LoadTexture stbi_load name filepath gl =
     (let textureID = name;
          gl1 = glTexParameteri GL_TEXTURE_MAG_FILTER GL_LINEAR
                  (glTexParameteri GL_TEXTURE_MIN_FILTER GL_LINEAR
                    (glTexParameteri GL_TEXTURE_WRAP_T GL_REPEAT
                      (glTexParameteri GL_TEXTURE_WRAP_S GL_REPEAT
                        (glBindTexture textureID (glGenTextures textureID gl)))))
      in case stbi_load filepath of
           Some data \<Rightarrow>
             (let format = (if channels data = 3 then GL_RGB else GL_RGBA)
              in (textureID,
                  glGenerateMipmap (glTexImage2D format (width data) (height data) format gl1)))
         | None \<Rightarrow> (0, gl1))"

section \<open>SceneManager: the texture slots (array variant)\<close>





section \<open>DbHelper\<close>

text \<open>
  The SQLite database behind \<^verbatim>\<open>sqlite3* db_\<close>: the rows of its three tables (the
  \<^verbatim>\<open>ts\<close> columns, which SQLite fills from its clock, are left out). \<^verbatim>\<open>db_\<close> is an
  option: \<open>None\<close> is the null handle of a store that could not be opened. Whether
  \<^verbatim>\<open>sqlite3_prepare_v2\<close> and \<^verbatim>\<open>sqlite3_step\<close> succeed is an input of each call; a step
  that fails writes nothing. The functions take \<^verbatim>\<open>db_\<close> as \<open>db\<close> and return the flag and the new \<^verbatim>\<open>db_\<close>; the
  messages to \<^verbatim>\<open>std::cerr\<close> are not modelled.
\<close>

type_synonym profile_row = "string \<times> real \<times> real \<times> real \<times> real \<times> string"

record database =
  profiles :: "profile_row list"
  telemetry :: "(real \<times> real) list"
  errors :: "(string \<times> string) list"

text \<open>\<^verbatim>\<open>INSERT ... ON CONFLICT(name) DO UPDATE\<close> on the table \<^verbatim>\<open>profiles\<close>, whose primary
  key is the name.\<close>

fun upsert_profile :: "profile_row \<Rightarrow> profile_row list \<Rightarrow> profile_row list" where
  "upsert_profile r [] = [r]"
| "upsert_profile r (x # xs) = (if fst x = fst r then r # xs else x # upsert_profile r xs)"

definition saveCameraProfile ::
  "bool \<Rightarrow> bool \<Rightarrow> string \<Rightarrow> real \<Rightarrow> real \<Rightarrow> real \<Rightarrow> real \<Rightarrow> string \<Rightarrow> database option
     \<Rightarrow> bool \<times> database option" where
  "saveCameraProfile prepare_ok step_ok profile x y z fov_deg proj db =
     (case db of
        None \<Rightarrow> (False, db)
      | Some d \<Rightarrow>
          if \<not> prepare_ok then (False, db)
          else if step_ok
          then (True, Some (d\<lparr>profiles := upsert_profile (profile, x, y, z, fov_deg, proj) (profiles d)\<rparr>))
          else (False, db))"

definition logTelemetry ::
  "bool \<Rightarrow> bool \<Rightarrow> real \<Rightarrow> real \<Rightarrow> database option \<Rightarrow> bool \<times> database option" where
  "logTelemetry prepare_ok step_ok fps frameMs db =
     (case db of
        None \<Rightarrow> (False, db)
      | Some d \<Rightarrow>
          if \<not> prepare_ok then (False, db)
          else if step_ok then (True, Some (d\<lparr>telemetry := telemetry d @ [(fps, frameMs)]\<rparr>))
          else (False, db))"

definition logError ::
  "bool \<Rightarrow> bool \<Rightarrow> string \<Rightarrow> string \<Rightarrow> database option \<Rightarrow> bool \<times> database option" where
  "logError prepare_ok step_ok source message db =
     (case db of
        None \<Rightarrow> (False, db)
      | Some d \<Rightarrow>
          if \<not> prepare_ok then (False, db)
          else if step_ok then (True, Some (d\<lparr>errors := errors d @ [(source, message)]\<rparr>))
          else (False, db))"

section \<open>ViewManager\<close>

text \<open>\<^verbatim>\<open>glm::ortho(left, right, bottom, top, zNear, zFar)\<close> and
  \<^verbatim>\<open>glm::perspective(fovy, aspect, zNear, zFar)\<close>, in GLM's default right-handed clip
  space with depth from -1 to 1. The six arguments of \<^verbatim>\<open>glm::ortho\<close> are kept together
  as the view volume. A quotient whose divisor is 0 is 0 in the model and infinite or
  not a number in \<^verbatim>\<open>float\<close>: the matrices mean what GLM computes only for a volume that is
  not flat and a field of view whose half-angle tangent is not 0.\<close>

record ortho_volume =
  o_left :: real
  o_right :: real
  o_bottom :: real
  o_top :: real
  o_zNear :: real
  o_zFar :: real

definition glm_ortho :: "ortho_volume \<Rightarrow> mat4" where
  "glm_ortho b =
     Mat4 (Vec4 (2 / (o_right b - o_left b)) 0 0 0)
          (Vec4 0 (2 / (o_top b - o_bottom b)) 0 0)
          (Vec4 0 0 (- 2 / (o_zFar b - o_zNear b)) 0)
          (Vec4 (- (o_right b + o_left b) / (o_right b - o_left b))
                (- (o_top b + o_bottom b) / (o_top b - o_bottom b))
                (- (o_zFar b + o_zNear b) / (o_zFar b - o_zNear b)) 1)"

definition glm_perspective :: "real \<Rightarrow> real \<Rightarrow> real \<Rightarrow> real \<Rightarrow> mat4" where
  "glm_perspective fovy aspect zNear zFar =
     (let tanHalfFovy = tan (fovy / 2) in
      Mat4 (Vec4 (1 / (aspect * tanHalfFovy)) 0 0 0)
           (Vec4 0 (1 / tanHalfFovy) 0 0)
           (Vec4 0 0 (- (zFar + zNear) / (zFar - zNear)) (- 1))
           (Vec4 0 0 (- (2 * zFar * zNear) / (zFar - zNear)) 0))"

text \<open>The camera (\<^verbatim>\<open>camera.h\<close> is not among the sources): the members the view manager
  reads and writes, and the yaw, pitch and mouse sensitivity of the specification's camera
  state. The view manager passes the camera to the camera's own methods and reads
  \<open>Position\<close> and \<open>Zoom\<close>.\<close>

record Camera =
  Position :: vec3
  Front :: vec3
  Up :: vec3
  Zoom :: real
  MovementSpeed :: real
  Yaw :: real
  Pitch :: real
  MouseSensitivity :: real

datatype Camera_Movement = FORWARD | BACKWARD | LEFT | RIGHT | UP | DOWN

datatype key =
    GLFW_KEY_ESCAPE | GLFW_KEY_W | GLFW_KEY_S | GLFW_KEY_A | GLFW_KEY_D
  | GLFW_KEY_Q | GLFW_KEY_E | GLFW_KEY_P | GLFW_KEY_O

text \<open>The state the view manager's methods share: its shader manager pointer, the camera
  pointer \<^verbatim>\<open>g_pCamera\<close>, the mouse tracking, the frame timing, the projection flag and
  the window's close request.\<close>

record view_manager =
  vm_pShaderManager :: "uniform_sink option"
  g_pCamera :: "Camera option"
  gLastX :: real
  gLastY :: real
  gFirstMouse :: bool
  gDeltaTime :: real
  gLastFrame :: real
  bOrthographicProjection :: bool
  windowShouldClose :: bool

text \<open>Modelled from the spec: the uniform names \<^verbatim>\<open>g_ViewName\<close> and \<^verbatim>\<open>g_ProjectionName\<close>,
  whose declarations are not among the sources; the specification calls the two slots
  \<open>view\<close> and \<open>projection\<close>.\<close>

definition g_ViewName :: string where "g_ViewName = ''view''"
definition g_ProjectionName :: string where "g_ProjectionName = ''projection''"

text \<open>
  The narrowing of \<^verbatim>\<open>double\<close> to \<^verbatim>\<open>float\<close>. \<open>round_binary p q\<close> rounds a real to the nearest
  binary floating-point number with \<open>p\<close> significant bits and smallest positive value
  \<open>2 ^ -q\<close>, ties to the even significand (IEEE 754 round-to-nearest, subnormals
  included): the number is scaled by \<open>2 ^ q\<close>, where every such number is an integer, and
  rounded to a multiple of the spacing of its binade. \<open>float32\<close> is the conversion to
  \<^verbatim>\<open>float\<close>, \<open>float64\<close> the rounding of the result of an operation on \<^verbatim>\<open>double\<close>. Infinities
  and NaN are not modelled: the values are the hardware's for results of magnitude below
  \<open>2 ^ 128\<close> and \<open>2 ^ 1024\<close>.
\<close>

definition round_half_even :: "real \<Rightarrow> int" where
  "round_half_even r =
     (let f = \<lfloor>r\<rfloor>; d = r - of_int f
      in if d < 1 / 2 then f else if 1 / 2 < d then f + 1 else if even f then f else f + 1)"

fun bit_length :: "nat \<Rightarrow> nat" where
  "bit_length n = (if n = 0 then 0 else Suc (bit_length (n div 2)))"

definition round_binary :: "nat \<Rightarrow> nat \<Rightarrow> real \<Rightarrow> real" where
  "round_binary p q x =
     (let X = x * 2 ^ q;
          u = 2 ^ (bit_length (nat \<lfloor>\<bar>X\<bar>\<rfloor>) - p)
      in of_int (round_half_even (X / u)) * u / 2 ^ q)"

definition float32 :: "real \<Rightarrow> real" where
  "float32 = round_binary 24 149"

definition float64 :: "real \<Rightarrow> real" where
  "float64 = round_binary 53 1074"

text \<open>A coordinate the cursor callback can receive: a \<^verbatim>\<open>double\<close> (a number that its own
  rounding leaves alone), of a magnitude below \<open>2 ^ 126\<close>, so that neither it nor a difference of
  two of them overflows when narrowed to \<^verbatim>\<open>float\<close>.\<close>

definition cursor_coordinate :: "real \<Rightarrow> bool" where
  "cursor_coordinate x = (float64 x = x \<and> \<bar>x\<bar> < 2 ^ 126)"

text \<open>\<^verbatim>\<open>ViewManager::Mouse_Position_Callback(window, xMousePos, yMousePos)\<close>, in its blocks.
  The two coordinates are \<^verbatim>\<open>double\<close>; the tracking variables (\<^verbatim>\<open>gLastX\<close>, \<^verbatim>\<open>gLastY\<close>; the header
  declares them \<^verbatim>\<open>float m_lastX\<close>, \<^verbatim>\<open>float m_lastY\<close>) and the locals \<^verbatim>\<open>xOffset\<close>, \<^verbatim>\<open>yOffset\<close> are
  \<^verbatim>\<open>float\<close>. \<open>Mouse_Position_seed\<close> is the block under \<^verbatim>\<open>if (gFirstMouse)\<close>.
  \<open>Mouse_Position_offsets\<close> is the pair of locals: each subtraction is done in
  \<^verbatim>\<open>double\<close> and its result narrowed to \<^verbatim>\<open>float\<close>. The camera's method is the parameter
  \<open>processMouseMovement\<close> (\<^verbatim>\<open>camera.h\<close> is not among the sources); the call through
  \<^verbatim>\<open>g_pCamera\<close> is not guarded.\<close>

definition Mouse_Position_seed :: "real \<Rightarrow> real \<Rightarrow> view_manager \<Rightarrow> view_manager" where
  "Mouse_Position_seed xMousePos yMousePos s =
     (if gFirstMouse s
      then s\<lparr>gLastX := float32 xMousePos, gLastY := float32 yMousePos, gFirstMouse := False\<rparr>
      else s)"

definition Mouse_Position_offsets :: "real \<Rightarrow> real \<Rightarrow> view_manager \<Rightarrow> real \<times> real" where
  "Mouse_Position_offsets xMousePos yMousePos s =
     (float32 (float64 (xMousePos - gLastX s)), float32 (float64 (gLastY s - yMousePos)))"

definition Mouse_Position_Callback ::
  "(real \<Rightarrow> real \<Rightarrow> Camera \<Rightarrow> Camera) \<Rightarrow> real \<Rightarrow> real \<Rightarrow> view_manager \<Rightarrow> fault + view_manager" where
  "Mouse_Position_Callback processMouseMovement xMousePos yMousePos s =
     (let s1 = Mouse_Position_seed xMousePos yMousePos s;
          offsets = Mouse_Position_offsets xMousePos yMousePos s1;
          s2 = s1\<lparr>gLastX := float32 xMousePos, gLastY := float32 yMousePos\<rparr>
      in case g_pCamera s2 of
           None \<Rightarrow> Inl NullDereference
         | Some c \<Rightarrow>
             Inr (s2\<lparr>g_pCamera := Some (processMouseMovement (fst offsets) (snd offsets) c)\<rparr>))"

text \<open>\<^verbatim>\<open>ViewManager::ProcessKeyboardEvents\<close>. \<open>pressed k\<close> is
  \<^verbatim>\<open>glfwGetKey(m_pWindow, k) == GLFW_PRESS\<close>; \<^verbatim>\<open>Camera::ProcessKeyboard\<close> is the parameter
  \<open>processKeyboard\<close>. The method is its three blocks in order: the Escape test and the null
  check, the six navigation tests (\<open>navigate\<close>), and the two projection tests
  (\<open>toggle_projection\<close>).\<close>

definition navigate ::
  "(Camera_Movement \<Rightarrow> real \<Rightarrow> Camera \<Rightarrow> Camera) \<Rightarrow> (key \<Rightarrow> bool) \<Rightarrow> real \<Rightarrow> Camera \<Rightarrow> Camera" where
  "navigate processKeyboard pressed deltaTime c =
     (let c1 = (if pressed GLFW_KEY_W then processKeyboard FORWARD deltaTime c else c);
          c2 = (if pressed GLFW_KEY_S then processKeyboard BACKWARD deltaTime c1 else c1);
          c3 = (if pressed GLFW_KEY_A then processKeyboard LEFT deltaTime c2 else c2);
          c4 = (if pressed GLFW_KEY_D then processKeyboard RIGHT deltaTime c3 else c3);
          c5 = (if pressed GLFW_KEY_Q then processKeyboard UP deltaTime c4 else c4)
      in if pressed GLFW_KEY_E then processKeyboard DOWN deltaTime c5 else c5)"

definition toggle_projection :: "(key \<Rightarrow> bool) \<Rightarrow> bool \<Rightarrow> bool" where
  "toggle_projection pressed ortho =
     (let ortho1 = (if pressed GLFW_KEY_P then False else ortho)
      in if pressed GLFW_KEY_O then True else ortho1)"

definition ProcessKeyboardEvents ::
  "(Camera_Movement \<Rightarrow> real \<Rightarrow> Camera \<Rightarrow> Camera) \<Rightarrow> (key \<Rightarrow> bool) \<Rightarrow> view_manager \<Rightarrow> view_manager" where
  "ProcessKeyboardEvents processKeyboard pressed s =
     (let s1 = (if pressed GLFW_KEY_ESCAPE then s\<lparr>windowShouldClose := True\<rparr> else s)
      in case g_pCamera s1 of
           None \<Rightarrow> s1
         | Some c \<Rightarrow>
             s1\<lparr>g_pCamera := Some (navigate processKeyboard pressed (gDeltaTime s1) c),
                bOrthographicProjection := toggle_projection pressed (bOrthographicProjection s1)\<rparr>)"

text \<open>The orthographic branch of \<^verbatim>\<open>ViewManager::PrepareSceneView\<close>: the view volume it
  passes to \<^verbatim>\<open>glm::ortho\<close>, from the aspect ratio.\<close>

definition orthographic_volume :: "real \<Rightarrow> ortho_volume" where
  "orthographic_volume aspect =
     (let orthoHeight = 10;
          orthoWidth = orthoHeight * aspect
      in \<lparr>o_left = - orthoWidth / 2, o_right = orthoWidth / 2,
          o_bottom = - orthoHeight / 2, o_top = orthoHeight / 2,
          o_zNear = 1 / 10, o_zFar = 100\<rparr>)"

text \<open>\<^verbatim>\<open>ViewManager::PrepareSceneView\<close>. \<open>currentFrame\<close> is what \<^verbatim>\<open>glfwGetTime()\<close> returns;
  \<^verbatim>\<open>WINDOW_WIDTH\<close> and \<^verbatim>\<open>WINDOW_HEIGHT\<close>, which the sources do not define, are parameters;
  \<^verbatim>\<open>Camera::GetViewMatrix\<close> is the parameter \<open>getViewMatrix\<close>. The calls through
  \<^verbatim>\<open>g_pCamera\<close> are not guarded.\<close>

definition PrepareSceneView ::
  "(Camera_Movement \<Rightarrow> real \<Rightarrow> Camera \<Rightarrow> Camera) \<Rightarrow> (Camera \<Rightarrow> mat4) \<Rightarrow> int \<Rightarrow> int \<Rightarrow> real
     \<Rightarrow> (key \<Rightarrow> bool) \<Rightarrow> view_manager \<Rightarrow> fault + view_manager" where
  "PrepareSceneView processKeyboard getViewMatrix WINDOW_WIDTH WINDOW_HEIGHT currentFrame pressed s =
     (let s1 = s\<lparr>gDeltaTime := currentFrame - gLastFrame s, gLastFrame := currentFrame\<rparr>;
          s2 = ProcessKeyboardEvents processKeyboard pressed s1
      in case g_pCamera s2 of
           None \<Rightarrow> Inl NullDereference
         | Some c \<Rightarrow>
             (let view = getViewMatrix c;
                  projection =
                    (if bOrthographicProjection s2
                     then glm_ortho (orthographic_volume (real_of_int WINDOW_WIDTH / real_of_int WINDOW_HEIGHT))
                     else glm_perspective (glm_radians (Zoom c))
                            (real_of_int WINDOW_WIDTH / real_of_int WINDOW_HEIGHT) (1 / 10) 100)
              in case vm_pShaderManager s2 of
                   None \<Rightarrow> Inr s2
                 | Some sink \<Rightarrow>
                     Inr (s2\<lparr>vm_pShaderManager :=
                            Some (setValue ''viewPosition'' (UVec3 (Position c))
                                   (setValue g_ProjectionName (UMat4 projection)
                                     (setValue g_ViewName (UMat4 view) sink)))\<rparr>)))"

text \<open>The \<^verbatim>\<open>ViewManager\<close> constructor with the default \<^verbatim>\<open>ViewConfig\<close> (window 1000 by 800,
  zoom 80, movement speed 20, camera at (0, 5, 12) looking along (0, -0.5, -2), up
  (0, 1, 0)) and the header's member initialisers. \<open>camera0\<close> is what \<^verbatim>\<open>Camera()\<close>
  constructs. The constructor and the header name the state \<^verbatim>\<open>m_camera\<close>, \<^verbatim>\<open>m_lastX\<close>,
  \<^verbatim>\<open>m_lastY\<close>, \<^verbatim>\<open>m_firstMouse\<close>, \<^verbatim>\<open>m_deltaTime\<close>, \<^verbatim>\<open>m_lastFrame\<close>, \<^verbatim>\<open>m_isOrtho\<close>; the
  methods name it \<^verbatim>\<open>g_pCamera\<close>, \<^verbatim>\<open>gLastX\<close>, \<^verbatim>\<open>gLastY\<close>, \<^verbatim>\<open>gFirstMouse\<close>, \<^verbatim>\<open>gDeltaTime\<close>,
  \<^verbatim>\<open>gLastFrame\<close>, \<^verbatim>\<open>bOrthographicProjection\<close>. The model has one field for each.\<close>

definition ViewManager_init :: "uniform_sink option \<Rightarrow> Camera \<Rightarrow> view_manager" where
  "ViewManager_init pShaderManager camera0 =
     \<lparr>vm_pShaderManager = pShaderManager,
      g_pCamera = Some (camera0\<lparr>Position := Vec3 0 5 12, Front := Vec3 0 (- 1 / 2) (- 2),
                                Up := Vec3 0 1 0, Zoom := 80, MovementSpeed := 20\<rparr>),
      gLastX = 1000 / 2, gLastY = 800 / 2, gFirstMouse = True,
      gDeltaTime = 0, gLastFrame = 0,
      bOrthographicProjection = False, windowShouldClose = False\<rparr>"

section \<open>Theorems\<close>

subsection \<open>Matrix algebra\<close>

lemma vec4_add_assoc: "vec4_add (vec4_add a b) c = vec4_add a (vec4_add b c)"
  by (cases a; cases b; cases c) simp

lemma vec4_scale_add: "vec4_scale (vec4_add a b) k = vec4_add (vec4_scale a k) (vec4_scale b k)"
  by (cases a; cases b) (simp add: algebra_simps)

lemma vec4_scale_scale: "vec4_scale (vec4_scale a k) l = vec4_scale a (k * l)"
  by (cases a) (simp add: algebra_simps)

lemma mat_vec_mat_mul: "mat_vec (mat_mul a b) v = mat_vec a (mat_vec b v)"
proof -
  obtain a0 a1 a2 a3 where a: "a = Mat4 a0 a1 a2 a3" by (cases a)
  obtain b0 b1 b2 b3 where b: "b = Mat4 b0 b1 b2 b3" by (cases b)
  obtain x y z w where v: "v = Vec4 x y z w" by (cases v)
  show ?thesis
    unfolding a b v
    by (cases a0; cases a1; cases a2; cases a3; cases b0; cases b1; cases b2; cases b3)
       (simp add: algebra_simps)
qed

lemma mat_mul_assoc: "mat_mul (mat_mul a b) c = mat_mul a (mat_mul b c)"
  by (cases c) (simp add: mat_vec_mat_mul)

lemma glm_rotate_X: "glm_rotate a (Vec3 1 0 0) = spec_Rx a"
  by (simp add: glm_rotate_def spec_Rx_def Let_def)

lemma glm_rotate_Y: "glm_rotate a (Vec3 0 1 0) = spec_Ry a"
  by (simp add: glm_rotate_def spec_Ry_def Let_def)

lemma glm_rotate_Z: "glm_rotate a (Vec3 0 0 1) = spec_Rz a"
  by (simp add: glm_rotate_def spec_Rz_def Let_def)

lemma glm_scale_spec: "glm_scale s = spec_S s"
  by (cases s) (simp add: spec_S_def)

lemma glm_translate_spec: "glm_translate p = spec_T p"
  by (cases p) (simp add: spec_T_def)

lemma glm_ortho_neq_perspective: "glm_ortho v \<noteq> glm_perspective fovy aspect zNear zFar"
  by (simp add: glm_ortho_def glm_perspective_def Let_def)

subsection \<open>The uniform sink\<close>

lemma current_uniform_append:
  "current_uniform (sink @ later) name =
     (case current_uniform later name of Some v \<Rightarrow> Some v | None \<Rightarrow> current_uniform sink name)"
  by (induction sink) (auto split: option.splits)

subsection \<open>Transform composer\<close>

text \<open>With a null shader manager the guarded writes are skipped and nothing else
  changes.\<close>

lemma SetTransformations_null: "SetTransformations s rx ry rz p None = None"
  by (simp add: SetTransformations_def Let_def)

lemma SetShaderColor_null: "SetShaderColor r g b a None = None"
  by (simp add: SetShaderColor_def)

text \<open>
  Claim C1. For every scale vector, rotation angles in degrees and translation vector,
  \<open>SetTransformations\<close> appends exactly one write to the uniform sink, under the slot
  \<open>model\<close>, and the matrix written is \<open>T \<cdot> Rz \<cdot> Ry \<cdot> Rx \<cdot> S\<close>: the product of the translation,
  the rotations about Z, Y and X and the scale, so that a point is scaled first, then
  rotated about X, then Y, then Z, and translated last.
\<close>

theorem SetTransformations_composes_T_Rz_Ry_Rx_S:
  "SetTransformations s rx ry rz p (Some sink)
     = Some (sink @ [(''model'', UMat4 (spec_compose s rx ry rz p))])
   \<and> mat_vec (spec_compose s rx ry rz p) v
     = mat_vec (spec_T p) (mat_vec (spec_Rz (rz * pi / 180)) (mat_vec (spec_Ry (ry * pi / 180))
         (mat_vec (spec_Rx (rx * pi / 180)) (mat_vec (spec_S s) v))))"
  by (simp add: SetTransformations_def spec_compose_def setValue_def g_ModelName_def Let_def
      glm_radians_def glm_rotate_X glm_rotate_Y glm_rotate_Z glm_scale_spec glm_translate_spec
      mat_mul_assoc mat_vec_mat_mul)

text \<open>An instance: scale (2, 3, 4), a quarter turn about X, translation (1, 2, 3).\<close>

theorem SetTransformations_composes_witness:
  "SetTransformations (Vec3 2 3 4) 90 0 0 (Vec3 1 2 3) (Some [])
     = Some [(''model'', UMat4 (Mat4 (Vec4 2 0 0 0) (Vec4 0 0 3 0) (Vec4 0 (- 4) 0 0) (Vec4 1 2 3 1)))]"
  using SetTransformations_composes_T_Rz_Ry_Rx_S [of "Vec3 2 3 4" 90 0 0 "Vec3 1 2 3" "[]" "Vec4 0 0 0 0"]
  by (simp add: spec_compose_def spec_T_def spec_Rz_def spec_Ry_def spec_Rx_def spec_S_def)

subsection \<open>Materials\<close>

lemma FindMaterial_loop_miss:
  "t \<notin> tag ` set ms \<Longrightarrow> FindMaterial_loop ms t m0 = (False, m0)"
  by (induction ms) auto

text \<open>For every tag that is not in a non-empty table, \<open>FindMaterial\<close> returns \<open>True\<close> and
  leaves the out-parameter as it was.\<close>

lemma FindMaterial_missing_tag:
  "ms \<noteq> [] \<Longrightarrow> t \<notin> tag ` set ms \<Longrightarrow> FindMaterial ms t m0 = (True, m0)"
  by (simp add: FindMaterial_def FindMaterial_loop_miss)

text \<open>
  Claim C2. The claim: for a tag that is not in the (non-empty) material table,
  \<open>FindMaterial\<close> returns found = false and \<open>SetShaderMaterial\<close> writes nothing to the sink.
  The code at the table that holds only \<open>glass\<close> (diffuse (0.1, 0.1, 0.1), specular
  (0.6, 0.6, 0.6), shininess 32) and the tag \<open>unknown\<close>: \<open>FindMaterial\<close> returns \<open>True\<close> with
  the out-parameter untouched, and \<open>SetShaderMaterial\<close> writes the three material uniforms
  from its uninitialised local.
\<close>

theorem FindMaterial_unknown_tag_reports_found:
  "FindMaterial
       [\<lparr>diffuseColor = Vec3 (1 / 10) (1 / 10) (1 / 10),
         specularColor = Vec3 (6 / 10) (6 / 10) (6 / 10), shininess = 32, tag = ''glass''\<rparr>]
       ''unknown'' material0 = (True, material0)
   \<and> SetShaderMaterial material0
       [\<lparr>diffuseColor = Vec3 (1 / 10) (1 / 10) (1 / 10),
         specularColor = Vec3 (6 / 10) (6 / 10) (6 / 10), shininess = 32, tag = ''glass''\<rparr>]
       ''unknown'' (Some [])
     = Inr (Some [(''material.diffuseColor'', UVec3 (diffuseColor material0)),
                  (''material.specularColor'', UVec3 (specularColor material0)),
                  (''material.shininess'', UFloat (shininess material0))])"
  by (simp add: FindMaterial_def SetShaderMaterial_def setValue_def)

text \<open>The registered tag: the lookup is found and exactly the three values of \<open>glass\<close> are
  written, in the order diffuse, specular, shininess.\<close>

lemma SetShaderMaterial_registered_glass:
  "SetShaderMaterial material0
       [\<lparr>diffuseColor = Vec3 (1 / 10) (1 / 10) (1 / 10),
         specularColor = Vec3 (6 / 10) (6 / 10) (6 / 10), shininess = 32, tag = ''glass''\<rparr>]
       ''glass'' (Some sink)
     = Inr (Some (sink @ [(''material.diffuseColor'', UVec3 (Vec3 (1 / 10) (1 / 10) (1 / 10))),
                          (''material.specularColor'', UVec3 (Vec3 (6 / 10) (6 / 10) (6 / 10))),
                          (''material.shininess'', UFloat 32)]))"
  by (simp add: FindMaterial_def SetShaderMaterial_def setValue_def)

subsection \<open>Texture registry\<close>


lemma map_find_map_assign_other: "k' \<noteq> k \<Longrightarrow> map_find (map_assign m k v) k' = map_find m k'"
  by (induction m k v rule: map_assign.induct) auto











lemma registry_ok_empty: "registry_ok ([], gl)"
  by (simp add: registry_ok_def)

lemma registry_ok_DestroyGLTextures: "registry_ok (DestroyGLTextures st)"
  by (cases st) (simp add: registry_ok_def DestroyGLTextures_def)





subsection \<open>Pixel formats\<close>

text \<open>\<open>loadTextureFromFile\<close> refuses every channel count other than 1, 3 and 4 and touches
  neither the out-parameter nor OpenGL; for 1, 3 and 4 it uploads as \<open>GL_RED\<close>, \<open>GL_RGB\<close>
  and \<open>GL_RGBA\<close>.\<close>

lemma loadTextureFromFile_rejects:
  "stbi_load path = Some img \<Longrightarrow> channels img \<notin> {1, 3, 4} \<Longrightarrow>
   loadTextureFromFile stbi_load name path outTex gl = (False, outTex, gl)"
  by (simp add: loadTextureFromFile_def)

lemma loadTextureFromFile_format:
  "stbi_load path = Some img \<Longrightarrow> channels img \<in> {1, 3, 4} \<Longrightarrow>
   \<exists>gl'. loadTextureFromFile stbi_load name path outTex gl = (True, name, gl')
     \<and> textures gl' = insert name (textures gl)
     \<and> calls gl' = calls gl @ [GlGenTextures name, GlBindTexture name,
          GlTexImage2D (if channels img = 1 then GL_RED else if channels img = 3 then GL_RGB else GL_RGBA)
             (width img) (height img)
            (if channels img = 1 then GL_RED else if channels img = 3 then GL_RGB else GL_RGBA),
          GlGenerateMipmap,
          GlTexParameteri GL_TEXTURE_WRAP_S GL_REPEAT,
          GlTexParameteri GL_TEXTURE_WRAP_T GL_REPEAT,
          GlTexParameteri GL_TEXTURE_MIN_FILTER GL_LINEAR_MIPMAP_LINEAR,
          GlTexParameteri GL_TEXTURE_MAG_FILTER GL_LINEAR, GlBindTexture 0]"
  by (auto simp add: loadTextureFromFile_def glGenTextures_def glBindTexture_def glTexParameteri_def
      glTexImage2D_def glGenerateMipmap_def gl_log_def)

text \<open>
  Claim C4. The claim: for a decoded image whose channel count is not 1, 3 or 4, every
  texture-loading operation fails and installs no texture with a coerced pixel format.
  The code of \<open>LoadTexture\<close> at a two-channel image: it returns the generated handle 7, not
  0, and has uploaded the pixels as \<open>GL_RGBA\<close>.
\<close>

theorem LoadTexture_two_channels_uploads_RGBA:
  "LoadTexture [''grey_alpha.png'' \<mapsto> \<lparr>width = 2, height = 2, channels = 2\<rparr>] 7 ''grey_alpha.png''
       \<lparr>textures = {}, calls = []\<rparr>
     = (7, \<lparr>textures = {7},
            calls = [GlGenTextures 7, GlBindTexture 7,
                     GlTexParameteri GL_TEXTURE_WRAP_S GL_REPEAT,
                     GlTexParameteri GL_TEXTURE_WRAP_T GL_REPEAT,
                     GlTexParameteri GL_TEXTURE_MIN_FILTER GL_LINEAR,
                     GlTexParameteri GL_TEXTURE_MAG_FILTER GL_LINEAR,
                     GlTexImage2D GL_RGBA 2 2 GL_RGBA, GlGenerateMipmap]\<rparr>)"
  by (simp add: LoadTexture_def Let_def glGenTextures_def glBindTexture_def glTexParameteri_def
      glTexImage2D_def glGenerateMipmap_def gl_log_def)

text \<open>\<open>LoadTexture\<close> uploads every channel count other than 3 as \<open>GL_RGBA\<close>, the
  single-channel image included.\<close>

lemma LoadTexture_format:
  "stbi_load path = Some img \<Longrightarrow>
   fst (LoadTexture stbi_load name path gl) = name
   \<and> GlTexImage2D (if channels img = 3 then GL_RGB else GL_RGBA) (width img) (height img)
        (if channels img = 3 then GL_RGB else GL_RGBA)
      \<in> set (calls (snd (LoadTexture stbi_load name path gl)))"
  by (simp add: LoadTexture_def Let_def glGenTextures_def glBindTexture_def glTexParameteri_def
      glTexImage2D_def glGenerateMipmap_def gl_log_def)

subsection \<open>Releasing the textures\<close>

lemma DestroyGLTextures_loop_textures:
  "textures (DestroyGLTextures_loop m gl) = textures gl - {h \<in> snd ` set m. h \<noteq> 0}"
  by (induction m gl rule: DestroyGLTextures_loop.induct)
     (auto simp: glDeleteTextures_def gl_log_def)

lemma DestroyGLTextures_loop_calls:
  "calls (DestroyGLTextures_loop m gl)
     = calls gl @ map GlDeleteTextures (filter (\<lambda>h. h \<noteq> 0) (map snd m))"
  by (induction m gl rule: DestroyGLTextures_loop.induct)
     (auto simp: glDeleteTextures_def gl_log_def)

text \<open>
  Claim C10. \<open>DestroyGLTextures\<close> is idempotent. After one call the tag to handle map is
  empty, and every handle it stored (other than 0, which names no texture) has been passed
  to \<^verbatim>\<open>glDeleteTextures\<close> and is no longer alive. A second call returns the same state:
  the map stays empty and the OpenGL context, its record of calls included, is unchanged,
  so the second call deletes nothing.
\<close>

theorem DestroyGLTextures_idempotent:
  "fst (DestroyGLTextures (m, gl)) = []
   \<and> (\<forall>(k, h) \<in> set m. h \<noteq> 0 \<longrightarrow>
         h \<notin> textures (snd (DestroyGLTextures (m, gl)))
         \<and> GlDeleteTextures h \<in> set (calls (snd (DestroyGLTextures (m, gl)))))
   \<and> DestroyGLTextures (DestroyGLTextures (m, gl)) = DestroyGLTextures (m, gl)
   \<and> calls (snd (DestroyGLTextures (DestroyGLTextures (m, gl))))
       = calls (snd (DestroyGLTextures (m, gl)))"
proof -
  have deleted: "h \<notin> textures (DestroyGLTextures_loop m gl)
      \<and> GlDeleteTextures h \<in> set (calls (DestroyGLTextures_loop m gl))"
    if "(k, h) \<in> set m" "h \<noteq> 0" for k h
  proof -
    from that have "h \<in> {h \<in> snd ` set m. h \<noteq> 0}" by force
    then show ?thesis
      by (simp add: DestroyGLTextures_loop_textures DestroyGLTextures_loop_calls)
  qed
  show ?thesis
    using deleted by (auto simp: DestroyGLTextures_def)
qed

text \<open>An instance: two registered textures and one texture that is not the registry's.\<close>

theorem DestroyGLTextures_idempotent_witness:
  "fst (DestroyGLTextures ([(''desk'', 1), (''mouse'', 2)], \<lparr>textures = {1, 2, 3}, calls = []\<rparr>)) = []
   \<and> snd (DestroyGLTextures ([(''desk'', 1), (''mouse'', 2)], \<lparr>textures = {1, 2, 3}, calls = []\<rparr>))
       = \<lparr>textures = {3}, calls = [GlDeleteTextures 1, GlDeleteTextures 2]\<rparr>
   \<and> DestroyGLTextures (DestroyGLTextures ([(''desk'', 1), (''mouse'', 2)],
         \<lparr>textures = {1, 2, 3}, calls = []\<rparr>))
       = ([], \<lparr>textures = {3}, calls = [GlDeleteTextures 1, GlDeleteTextures 2]\<rparr>)"
  using DestroyGLTextures_idempotent [of "[(''desk'', 1), (''mouse'', 2)]"
      "\<lparr>textures = {1, 2, 3}, calls = []\<rparr>"]
  by (simp add: DestroyGLTextures_def glDeleteTextures_def gl_log_def)

subsection \<open>Persistence\<close>

text \<open>
  Claim C8. When the store is unavailable (the database handle is null),
  \<open>saveCameraProfile\<close>, \<open>logTelemetry\<close> and \<open>logError\<close> return false and leave the handle
  null: nothing is written, whatever SQLite would have answered, and the call ends
  normally for every argument.
\<close>

theorem persistence_unavailable_is_noop:
  "saveCameraProfile prepare_ok step_ok profile x y z fov_deg proj None = (False, None)
   \<and> logTelemetry prepare_ok step_ok fps frameMs None = (False, None)
   \<and> logError prepare_ok step_ok source message None = (False, None)"
  by (simp add: saveCameraProfile_def logTelemetry_def logError_def)

text \<open>With the store open and SQLite succeeding, the calls do write: the null handle is
  what makes them no-ops.\<close>

lemma persistence_available_writes:
  "logTelemetry True True 60 (50 / 3) (Some \<lparr>profiles = [], telemetry = [], errors = []\<rparr>)
     = (True, Some \<lparr>profiles = [], telemetry = [(60, 50 / 3)], errors = []\<rparr>)
   \<and> saveCameraProfile True True ''default'' 0 5 12 80 ''ORTHO''
       (Some \<lparr>profiles = [(''default'', 1, 1, 1, 45, ''PERSPECTIVE'')], telemetry = [], errors = []\<rparr>)
     = (True, Some \<lparr>profiles = [(''default'', 0, 5, 12, 80, ''ORTHO'')], telemetry = [], errors = []\<rparr>)"
  by (simp add: logTelemetry_def saveCameraProfile_def)

subsection \<open>Solid colour\<close>

text \<open>
  Claim C9. With a shader manager that is not null, \<open>SetShaderColor\<close> appends two writes to
  the sink, in this order: \<open>bUseTexture\<close> set to false (the integer 0), then \<open>objectColor\<close>
  set to the colour. Whatever an earlier object wrote, the value \<open>bUseTexture\<close> holds
  afterwards is false.
\<close>

theorem SetShaderColor_disables_texture_first:
  "SetShaderColor r g b a (Some sink)
     = Some (sink @ [(''bUseTexture'', UInt 0), (''objectColor'', UVec4 (Vec4 r g b a))])
   \<and> map_option (\<lambda>sink'. current_uniform sink' ''bUseTexture'')
         (SetShaderColor r g b a (Some sink)) = Some (Some (UInt 0))
   \<and> map_option (\<lambda>sink'. current_uniform sink' ''objectColor'')
         (SetShaderColor r g b a (Some sink)) = Some (Some (UVec4 (Vec4 r g b a)))"
  by (simp add: SetShaderColor_def setValue_def g_UseTextureName_def g_ColorValueName_def
      current_uniform_append)

text \<open>An instance: a sink in which the previous object enabled its texture.\<close>

theorem SetShaderColor_disables_texture_witness:
  "SetShaderColor (9 / 10) (9 / 10) (9 / 10) 1 (Some [(''bUseTexture'', UInt 1)])
     = Some [(''bUseTexture'', UInt 1), (''bUseTexture'', UInt 0),
             (''objectColor'', UVec4 (Vec4 (9 / 10) (9 / 10) (9 / 10) 1))]
   \<and> current_uniform [(''bUseTexture'', UInt 1), (''bUseTexture'', UInt 0),
             (''objectColor'', UVec4 (Vec4 (9 / 10) (9 / 10) (9 / 10) 1))] ''bUseTexture''
     = Some (UInt 0)"
  using SetShaderColor_disables_texture_first [of "9 / 10" "9 / 10" "9 / 10" 1
      "[(''bUseTexture'', UInt 1)]"]
  by simp

subsection \<open>Rounding to float\<close>

declare bit_length.simps [simp del]

lemma bit_length_0: "bit_length 0 = 0"
  by (simp add: bit_length.simps)

lemma bit_length_less: "n < 2 ^ p \<Longrightarrow> bit_length n \<le> p"
proof (induction n arbitrary: p rule: bit_length.induct)
  case (1 n)
  show ?case
  proof (cases "n = 0")
    case True
    then show ?thesis by (simp add: bit_length.simps)
  next
    case False
    from False "1.prems" have "p \<noteq> 0" by (cases "p = 0") simp_all
    then obtain p' where p: "p = Suc p'" by (cases p) simp_all
    with "1.prems" have "n < 2 * 2 ^ p'" by simp
    then have "n div 2 < 2 ^ p'" by linarith
    with False "1.IH" have "bit_length (n div 2) \<le> p'" by blast
    with False p show ?thesis by (subst bit_length.simps) simp
  qed
qed

lemma bit_length_greater: "2 ^ m \<le> n \<Longrightarrow> m < bit_length n"
proof (induction n arbitrary: m rule: bit_length.induct)
  case (1 n)
  have "0 < (2::nat) ^ m" by simp
  with "1.prems" have nz: "n \<noteq> 0" by linarith
  show ?case
  proof (cases m)
    case 0
    with nz show ?thesis by (subst bit_length.simps) simp
  next
    case (Suc m')
    with "1.prems" have "2 * 2 ^ m' \<le> n" by simp
    then have "2 ^ m' \<le> n div 2" by linarith
    with nz "1.IH" have "m' < bit_length (n div 2)" by blast
    with nz Suc show ?thesis by (subst bit_length.simps) simp
  qed
qed

lemma bit_length_eq: "2 ^ m \<le> n \<Longrightarrow> n < 2 ^ Suc m \<Longrightarrow> bit_length n = Suc m"
  using bit_length_less [of n "Suc m"] bit_length_greater [of m n] by linarith

lemma round_binary_0: "round_binary p q 0 = 0"
  by (simp add: round_binary_def Let_def round_half_even_def bit_length_0)

text \<open>The rounding of a number whose binade is known: \<open>2 ^ m \<le> |x| * 2 ^ q < 2 ^ (m + 1)\<close>.\<close>

lemma round_binary_binade:
  assumes lo: "2 ^ m \<le> \<bar>x\<bar> * 2 ^ q" and hi: "\<bar>x\<bar> * 2 ^ q < 2 ^ Suc m"
  shows "round_binary p q x
    = of_int (round_half_even (x * 2 ^ q / 2 ^ (Suc m - p))) * 2 ^ (Suc m - p) / 2 ^ q"
proof -
  let ?X = "x * 2 ^ q"
  have abs: "\<bar>?X\<bar> = \<bar>x\<bar> * 2 ^ q" by (simp add: abs_mult)
  have "(2::int) ^ m \<le> \<lfloor>\<bar>?X\<bar>\<rfloor>"
    using lo by (simp add: abs le_floor_iff)
  moreover have nn: "0 \<le> \<lfloor>\<bar>?X\<bar>\<rfloor>" by simp
  ultimately have lo': "2 ^ m \<le> nat \<lfloor>\<bar>?X\<bar>\<rfloor>"
    by (simp only: le_nat_iff of_nat_power of_nat_numeral)
  have "\<lfloor>\<bar>?X\<bar>\<rfloor> < (2::int) ^ Suc m"
    using hi by (simp add: abs floor_less_iff)
  with nn have hi': "nat \<lfloor>\<bar>?X\<bar>\<rfloor> < 2 ^ Suc m"
    by (simp only: nat_less_iff of_nat_power of_nat_numeral)
  have "bit_length (nat \<lfloor>\<bar>?X\<bar>\<rfloor>) = Suc m"
    using lo' hi' by (rule bit_length_eq)
  then show ?thesis
    by (simp add: round_binary_def Let_def)
qed

lemma float_zero: "float32 0 = 0" "float64 0 = 0"
  by (simp_all add: float32_def float64_def round_binary_0)

text \<open>Whole pixel positions are floats, and so is their difference.\<close>

lemma float32_100: "float32 100 = 100"
  unfolding float32_def
  by (subst round_binary_binade [where m = 155]) (simp_all add: round_half_even_def Let_def)

lemma float32_200: "float32 200 = 200"
  unfolding float32_def
  by (subst round_binary_binade [where m = 156]) (simp_all add: round_half_even_def Let_def)

lemma float32_110: "float32 110 = 110"
  unfolding float32_def
  by (subst round_binary_binade [where m = 155]) (simp_all add: round_half_even_def Let_def)

lemma float32_190: "float32 190 = 190"
  unfolding float32_def
  by (subst round_binary_binade [where m = 156]) (simp_all add: round_half_even_def Let_def)

lemma float_10: "float64 10 = 10" "float32 10 = 10"
  unfolding float32_def float64_def
  by (subst round_binary_binade [where m = 1077], simp_all add: round_half_even_def Let_def)
     (subst round_binary_binade [where m = 152], simp_all add: round_half_even_def Let_def)

text \<open>The doubles nearest to 100.1, 200.7, 110.3 and 190.2 are not floats. They are
  \<open>3521955646092083 / 2 ^ 45\<close>, \<open>3530751739114291 / 2 ^ 44\<close>, \<open>7761672482796339 / 2 ^ 46\<close> and
  \<open>3346033785647923 / 2 ^ 44\<close>; the first two narrow to the floats \<open>13120307 / 2 ^ 17\<close> and
  \<open>13153075 / 2 ^ 16\<close>.\<close>

lemma float32_x1: "float32 (3521955646092083 / 2 ^ 45) = 13120307 / 2 ^ 17"
  unfolding float32_def
  by (subst round_binary_binade [where m = 155]) (simp_all add: round_half_even_def Let_def)

lemma float32_y1: "float32 (3530751739114291 / 2 ^ 44) = 13153075 / 2 ^ 16"
  unfolding float32_def
  by (subst round_binary_binade [where m = 156]) (simp_all add: round_half_even_def Let_def)

text \<open>The differences the two calls compute are doubles, so the subtraction in
  \<^verbatim>\<open>double\<close> is exact; their narrowing to \<^verbatim>\<open>float\<close> is not.\<close>

lemma offset_x_first:
  "float32 (float64 (3521955646092083 / 2 ^ 45 - 13120307 / 2 ^ 17)) = 13421773 / 2 ^ 43"
proof -
  have v: "(3521955646092083 / 2 ^ 45 - 13120307 / 2 ^ 17 :: real) = 53687091 / 2 ^ 45"
    by simp
  have d: "float64 (53687091 / 2 ^ 45) = 53687091 / 2 ^ 45"
    unfolding float64_def
    by (subst round_binary_binade [where m = 1054]) (simp_all add: round_half_even_def Let_def)
  have f: "float32 (53687091 / 2 ^ 45) = 13421773 / 2 ^ 43"
    unfolding float32_def
    by (subst round_binary_binade [where m = 129]) (simp_all add: round_half_even_def Let_def)
  show ?thesis by (simp only: v d f)
qed

lemma offset_y_first:
  "float32 (float64 (13153075 / 2 ^ 16 - 3530751739114291 / 2 ^ 44)) = - (13421773 / 2 ^ 42)"
proof -
  have v: "(13153075 / 2 ^ 16 - 3530751739114291 / 2 ^ 44 :: real) = - (53687091 / 2 ^ 44)"
    by simp
  have d: "float64 (- (53687091 / 2 ^ 44)) = - (53687091 / 2 ^ 44)"
    unfolding float64_def
    by (subst round_binary_binade [where m = 1055]) (simp_all add: round_half_even_def Let_def)
  have f: "float32 (- (53687091 / 2 ^ 44)) = - (13421773 / 2 ^ 42)"
    unfolding float32_def
    by (subst round_binary_binade [where m = 130]) (simp_all add: round_half_even_def Let_def)
  show ?thesis by (simp only: v d f)
qed

lemma offset_x_second:
  "float32 (float64 (7761672482796339 / 2 ^ 46 - 13120307 / 2 ^ 17)) = 10695477 / 2 ^ 20"
proof -
  have v: "(7761672482796339 / 2 ^ 46 - 13120307 / 2 ^ 17 :: real) = 717761297986355 / 2 ^ 46"
    by simp
  have d: "float64 (717761297986355 / 2 ^ 46) = 717761297986355 / 2 ^ 46"
    unfolding float64_def
    by (subst round_binary_binade [where m = 1077]) (simp_all add: round_half_even_def Let_def)
  have f: "float32 (717761297986355 / 2 ^ 46) = 10695477 / 2 ^ 20"
    unfolding float32_def
    by (subst round_binary_binade [where m = 152]) (simp_all add: round_half_even_def Let_def)
  show ?thesis by (simp only: v d f)
qed

lemma offset_y_second:
  "float32 (float64 (13153075 / 2 ^ 16 - 3346033785647923 / 2 ^ 44)) = 11010045 / 2 ^ 20"
proof -
  have v: "(13153075 / 2 ^ 16 - 3346033785647923 / 2 ^ 44 :: real) = 184717899779277 / 2 ^ 44"
    by simp
  have d: "float64 (184717899779277 / 2 ^ 44) = 184717899779277 / 2 ^ 44"
    unfolding float64_def
    by (subst round_binary_binade [where m = 1077]) (simp_all add: round_half_even_def Let_def)
  have f: "float32 (184717899779277 / 2 ^ 44) = 11010045 / 2 ^ 20"
    unfolding float32_def
    by (subst round_binary_binade [where m = 152]) (simp_all add: round_half_even_def Let_def)
  show ?thesis by (simp only: v d f)
qed

subsection \<open>Mouse tracking\<close>

lemma Mouse_Position_Callback_first:
  "gFirstMouse s \<Longrightarrow> g_pCamera s = Some c \<Longrightarrow>
   Mouse_Position_Callback P x y s
     = Inr (s\<lparr>gLastX := float32 x, gLastY := float32 y, gFirstMouse := False,
              g_pCamera := Some (P (float32 (float64 (x - float32 x)))
                                   (float32 (float64 (float32 y - y))) c)\<rparr>)"
  by (simp add: Mouse_Position_Callback_def Mouse_Position_seed_def Mouse_Position_offsets_def
      Let_def)

lemma Mouse_Position_Callback_later:
  "\<not> gFirstMouse s \<Longrightarrow> g_pCamera s = Some c \<Longrightarrow>
   Mouse_Position_Callback P x y s
     = Inr (s\<lparr>gLastX := float32 x, gLastY := float32 y,
              g_pCamera := Some (P (float32 (float64 (x - gLastX s)))
                                   (float32 (float64 (gLastY s - y))) c)\<rparr>)"
  by (simp add: Mouse_Position_Callback_def Mouse_Position_seed_def Mouse_Position_offsets_def
      Let_def)

lemma Mouse_Position_offsets_first:
  "gFirstMouse s \<Longrightarrow>
   Mouse_Position_offsets x y (Mouse_Position_seed x y s)
     = (float32 (float64 (x - float32 x)), float32 (float64 (float32 y - y)))"
  by (simp add: Mouse_Position_offsets_def Mouse_Position_seed_def)

lemma Mouse_Position_offsets_later:
  "\<not> gFirstMouse s \<Longrightarrow>
   Mouse_Position_offsets x y (Mouse_Position_seed x y s)
     = (float32 (float64 (x - gLastX s)), float32 (float64 (gLastY s - y)))"
  by (simp add: Mouse_Position_offsets_def Mouse_Position_seed_def)

lemma tracking_after_first:
  "gLastX (s\<lparr>gLastX := a, gLastY := b, gFirstMouse := f\<rparr>) = a"
  "gLastY (s\<lparr>gLastX := a, gLastY := b, gFirstMouse := f\<rparr>) = b"
  "gFirstMouse (s\<lparr>gLastX := a, gLastY := b, gFirstMouse := f\<rparr>) = f"
  by simp_all

lemma cursor_coordinate_100: "cursor_coordinate 100"
  unfolding cursor_coordinate_def float64_def
  by (subst round_binary_binade [where m = 1080]) (simp_all add: round_half_even_def Let_def)

lemma cursor_coordinate_200: "cursor_coordinate 200"
  unfolding cursor_coordinate_def float64_def
  by (subst round_binary_binade [where m = 1081]) (simp_all add: round_half_even_def Let_def)

lemma cursor_coordinate_110: "cursor_coordinate 110"
  unfolding cursor_coordinate_def float64_def
  by (subst round_binary_binade [where m = 1080]) (simp_all add: round_half_even_def Let_def)

lemma cursor_coordinate_190: "cursor_coordinate 190"
  unfolding cursor_coordinate_def float64_def
  by (subst round_binary_binade [where m = 1081]) (simp_all add: round_half_even_def Let_def)

lemma cursor_coordinate_x1: "cursor_coordinate (3521955646092083 / 2 ^ 45)"
  unfolding cursor_coordinate_def float64_def
  by (subst round_binary_binade [where m = 1080]) (simp_all add: round_half_even_def Let_def)

lemma cursor_coordinate_y1: "cursor_coordinate (3530751739114291 / 2 ^ 44)"
  unfolding cursor_coordinate_def float64_def
  by (subst round_binary_binade [where m = 1081]) (simp_all add: round_half_even_def Let_def)

lemma cursor_coordinate_x2: "cursor_coordinate (7761672482796339 / 2 ^ 46)"
  unfolding cursor_coordinate_def float64_def
  by (subst round_binary_binade [where m = 1080]) (simp_all add: round_half_even_def Let_def)

lemma cursor_coordinate_y2: "cursor_coordinate (3346033785647923 / 2 ^ 44)"
  unfolding cursor_coordinate_def float64_def
  by (subst round_binary_binade [where m = 1081]) (simp_all add: round_half_even_def Let_def)

text \<open>
  Claim C5, as the claim states it: the first call leaves the orientation alone, and the
  second call feeds the orientation update the delta \<open>(x2 - x1, y1 - y2)\<close>. From the
  constructor's state, with the cursor at the doubles nearest to (100.1, 200.7) and then
  (110.3, 190.2): all four are coordinates the callback can receive; the first call stores
  the floats \<open>13120307 / 2 ^ 17\<close> and \<open>13153075 / 2 ^ 16\<close> and computes the offsets
  \<open>(13421773 / 2 ^ 43, - 13421773 / 2 ^ 42)\<close>, about (1.53e-6, -3.05e-6), not (0, 0); the
  second call computes \<open>(10695477 / 2 ^ 20, 11010045 / 2 ^ 20)\<close>, about (10.2000017,
  10.4999971), which is not \<open>(x2 - x1, y1 - y2)\<close>. The camera update of the instance
  ignores the offsets, so that the state after the first call is the tracking state alone.
\<close>

theorem Mouse_Position_offsets_are_rounded:
  "cursor_coordinate (3521955646092083 / 2 ^ 45) \<and> cursor_coordinate (3530751739114291 / 2 ^ 44)
   \<and> cursor_coordinate (7761672482796339 / 2 ^ 46) \<and> cursor_coordinate (3346033785647923 / 2 ^ 44)
   \<and> Mouse_Position_Callback (\<lambda>xoffset yoffset c. c)
        (3521955646092083 / 2 ^ 45) (3530751739114291 / 2 ^ 44)
        (ViewManager_init None
           \<lparr>Position = Vec3 0 0 0, Front = Vec3 0 0 (- 1), Up = Vec3 0 1 0, Zoom = 45,
            MovementSpeed = 5 / 2, Yaw = - 90, Pitch = 0, MouseSensitivity = 1 / 10\<rparr>)
     = Inr ((ViewManager_init None
           \<lparr>Position = Vec3 0 0 0, Front = Vec3 0 0 (- 1), Up = Vec3 0 1 0, Zoom = 45,
            MovementSpeed = 5 / 2, Yaw = - 90, Pitch = 0, MouseSensitivity = 1 / 10\<rparr>)
          \<lparr>gLastX := 13120307 / 2 ^ 17, gLastY := 13153075 / 2 ^ 16, gFirstMouse := False\<rparr>)
   \<and> Mouse_Position_offsets (3521955646092083 / 2 ^ 45) (3530751739114291 / 2 ^ 44)
        (Mouse_Position_seed (3521955646092083 / 2 ^ 45) (3530751739114291 / 2 ^ 44)
          (ViewManager_init None
           \<lparr>Position = Vec3 0 0 0, Front = Vec3 0 0 (- 1), Up = Vec3 0 1 0, Zoom = 45,
            MovementSpeed = 5 / 2, Yaw = - 90, Pitch = 0, MouseSensitivity = 1 / 10\<rparr>))
     = (13421773 / 2 ^ 43, - (13421773 / 2 ^ 42))
   \<and> (13421773 / 2 ^ 43, - (13421773 / 2 ^ 42)) \<noteq> (0 :: real, 0 :: real)
   \<and> Mouse_Position_offsets (7761672482796339 / 2 ^ 46) (3346033785647923 / 2 ^ 44)
        (Mouse_Position_seed (7761672482796339 / 2 ^ 46) (3346033785647923 / 2 ^ 44)
          ((ViewManager_init None
           \<lparr>Position = Vec3 0 0 0, Front = Vec3 0 0 (- 1), Up = Vec3 0 1 0, Zoom = 45,
            MovementSpeed = 5 / 2, Yaw = - 90, Pitch = 0, MouseSensitivity = 1 / 10\<rparr>)
          \<lparr>gLastX := 13120307 / 2 ^ 17, gLastY := 13153075 / 2 ^ 16, gFirstMouse := False\<rparr>))
     = (10695477 / 2 ^ 20, 11010045 / 2 ^ 20)
   \<and> (10695477 / 2 ^ 20, 11010045 / 2 ^ 20)
       \<noteq> (7761672482796339 / 2 ^ 46 - 3521955646092083 / 2 ^ 45 :: real,
          3530751739114291 / 2 ^ 44 - 3346033785647923 / 2 ^ 44 :: real)"
proof -
  let ?s0 = "ViewManager_init None
           \<lparr>Position = Vec3 0 0 0, Front = Vec3 0 0 (- 1), Up = Vec3 0 1 0, Zoom = 45,
            MovementSpeed = 5 / 2, Yaw = - 90, Pitch = 0, MouseSensitivity = 1 / 10\<rparr>"
  have first: "gFirstMouse ?s0" by (simp add: ViewManager_init_def)
  let ?c0 = "\<lparr>Position = Vec3 0 5 12, Front = Vec3 0 (- 1 / 2) (- 2), Up = Vec3 0 1 0, Zoom = 80,
        MovementSpeed = 20, Yaw = - 90, Pitch = 0, MouseSensitivity = 1 / 10\<rparr>"
  have cam: "g_pCamera ?s0 = Some ?c0" by (simp add: ViewManager_init_def)
  have "Mouse_Position_Callback (\<lambda>xoffset yoffset c. c)
        (3521955646092083 / 2 ^ 45) (3530751739114291 / 2 ^ 44) ?s0
     = Inr (?s0\<lparr>gLastX := float32 (3521955646092083 / 2 ^ 45),
                 gLastY := float32 (3530751739114291 / 2 ^ 44), gFirstMouse := False,
                 g_pCamera := Some ?c0\<rparr>)"
    by (rule Mouse_Position_Callback_first [OF first cam, THEN trans]) (rule refl)
  also have "\<dots> = Inr (?s0\<lparr>gLastX := 13120307 / 2 ^ 17, gLastY := 13153075 / 2 ^ 16,
                 gFirstMouse := False, g_pCamera := Some ?c0\<rparr>)"
    by (simp only: float32_x1 float32_y1)
  also have "\<dots> = Inr (?s0\<lparr>gLastX := 13120307 / 2 ^ 17, gLastY := 13153075 / 2 ^ 16,
                 gFirstMouse := False\<rparr>)"
    by (simp add: ViewManager_init_def)
  finally have call: "Mouse_Position_Callback (\<lambda>xoffset yoffset c. c)
        (3521955646092083 / 2 ^ 45) (3530751739114291 / 2 ^ 44) ?s0
     = Inr (?s0\<lparr>gLastX := 13120307 / 2 ^ 17, gLastY := 13153075 / 2 ^ 16, gFirstMouse := False\<rparr>)" .
  have off1: "Mouse_Position_offsets (3521955646092083 / 2 ^ 45) (3530751739114291 / 2 ^ 44)
        (Mouse_Position_seed (3521955646092083 / 2 ^ 45) (3530751739114291 / 2 ^ 44) ?s0)
     = (13421773 / 2 ^ 43, - (13421773 / 2 ^ 42))"
    by (simp only: Mouse_Position_offsets_first [OF first] float32_x1 float32_y1
        offset_x_first offset_y_first)
  have off2: "Mouse_Position_offsets (7761672482796339 / 2 ^ 46) (3346033785647923 / 2 ^ 44)
        (Mouse_Position_seed (7761672482796339 / 2 ^ 46) (3346033785647923 / 2 ^ 44)
          (?s0\<lparr>gLastX := 13120307 / 2 ^ 17, gLastY := 13153075 / 2 ^ 16, gFirstMouse := False\<rparr>))
     = (10695477 / 2 ^ 20, 11010045 / 2 ^ 20)"
  proof -
    have later: "\<not> gFirstMouse
        (?s0\<lparr>gLastX := 13120307 / 2 ^ 17, gLastY := 13153075 / 2 ^ 16, gFirstMouse := False\<rparr>)"
      by (simp only: tracking_after_first) simp
    show ?thesis
      by (simp only: Mouse_Position_offsets_later [OF later] tracking_after_first
          offset_x_second offset_y_second)
  qed
  have ne1: "(13421773 / 2 ^ 43, - (13421773 / 2 ^ 42)) \<noteq> (0 :: real, 0 :: real)"
    by simp
  have ne2: "(10695477 / 2 ^ 20, 11010045 / 2 ^ 20)
       \<noteq> (7761672482796339 / 2 ^ 46 - 3521955646092083 / 2 ^ 45 :: real,
          3530751739114291 / 2 ^ 44 - 3346033785647923 / 2 ^ 44 :: real)"
    by simp
  from cursor_coordinate_x1 cursor_coordinate_y1 cursor_coordinate_x2 cursor_coordinate_y2
    call off1 ne1 off2 ne2
  show ?thesis by (intro conjI)
qed

text \<open>
  Claim C5, amended. For every camera update and every pair of mouse-move events at
  coordinates the callback can receive, starting from a state in which no move has been
  seen: the first call seeds \<open>gLastX\<close> and \<open>gLastY\<close> with the incoming coordinates narrowed
  to float, clears the first-move flag and changes nothing else but the camera, which it
  passes to the orientation update with the delta \<open>(fl (x1 - fl x1), fl (fl y1 - y1))\<close>; that
  delta is (0, 0) whenever \<open>x1\<close> and \<open>y1\<close> are floats. The second call feeds the orientation
  update the delta \<open>(fl (x2 - fl x1), fl (fl y1 - y2))\<close> (Y inverted) and stores the
  narrowed \<open>(x2, y2)\<close>; the delta equals \<open>(x2 - x1, y1 - y2)\<close> whenever \<open>x1\<close> and \<open>y1\<close> and the
  two differences are floats. Here \<open>fl\<close> is the narrowing of a double to float.
\<close>

theorem Mouse_Position_Callback_first_and_second:
  assumes first: "gFirstMouse s" and cam: "g_pCamera s = Some c"
    and coords: "cursor_coordinate x1" "cursor_coordinate y1"
      "cursor_coordinate x2" "cursor_coordinate y2"
  shows "\<exists>s1 c1 s2.
      Mouse_Position_Callback P x1 y1 s = Inr s1
    \<and> s1 = s\<lparr>gLastX := float32 x1, gLastY := float32 y1, gFirstMouse := False,
              g_pCamera := Some c1\<rparr>
    \<and> c1 = P (float32 (float64 (x1 - float32 x1))) (float32 (float64 (float32 y1 - y1))) c
    \<and> (float32 x1 = x1 \<and> float32 y1 = y1 \<longrightarrow> c1 = P 0 0 c)
    \<and> Mouse_Position_Callback P x2 y2 s1 = Inr s2
    \<and> s2 = s1\<lparr>gLastX := float32 x2, gLastY := float32 y2,
               g_pCamera := Some (P (float32 (float64 (x2 - float32 x1)))
                                    (float32 (float64 (float32 y1 - y2))) c1)\<rparr>
    \<and> (float32 x1 = x1 \<and> float32 y1 = y1
         \<and> float32 (float64 (x2 - x1)) = x2 - x1 \<and> float32 (float64 (y1 - y2)) = y1 - y2
       \<longrightarrow> g_pCamera s2 = Some (P (x2 - x1) (y1 - y2) c1))"
proof -
  let ?c1 = "P (float32 (float64 (x1 - float32 x1))) (float32 (float64 (float32 y1 - y1))) c"
  let ?s1 = "s\<lparr>gLastX := float32 x1, gLastY := float32 y1, gFirstMouse := False,
               g_pCamera := Some ?c1\<rparr>"
  let ?s2 = "?s1\<lparr>gLastX := float32 x2, gLastY := float32 y2,
               g_pCamera := Some (P (float32 (float64 (x2 - float32 x1)))
                                    (float32 (float64 (float32 y1 - y2))) ?c1)\<rparr>"
  have r1: "Mouse_Position_Callback P x1 y1 s = Inr ?s1"
    using first cam by (rule Mouse_Position_Callback_first)
  have r2: "Mouse_Position_Callback P x2 y2 ?s1 = Inr ?s2"
    using Mouse_Position_Callback_later [of ?s1 ?c1 P x2 y2] by simp
  have z: "float32 x1 = x1 \<and> float32 y1 = y1 \<longrightarrow> ?c1 = P 0 0 c"
    by (simp add: float_zero)
  have e: "float32 x1 = x1 \<and> float32 y1 = y1
         \<and> float32 (float64 (x2 - x1)) = x2 - x1 \<and> float32 (float64 (y1 - y2)) = y1 - y2
       \<longrightarrow> g_pCamera ?s2 = Some (P (x2 - x1) (y1 - y2) ?c1)"
    by simp
  show ?thesis
    apply (rule exI [of _ ?s1], rule exI [of _ ?c1], rule exI [of _ ?s2])
    using r1 r2 z e apply (intro conjI)
          apply (assumption | rule refl)+
    done
qed

text \<open>An instance: the session start of the constructor, a camera with yaw -90, pitch 0
  and sensitivity 1/10 whose update adds the delta times the sensitivity to yaw and pitch,
  and the moves to (100, 200) and (110, 190). After the first move yaw and pitch are -90
  and 0; after the second they are -89 and 1.\<close>

theorem Mouse_Position_Callback_witness:
  "cursor_coordinate 100 \<and> cursor_coordinate 200 \<and> cursor_coordinate 110 \<and> cursor_coordinate 190
   \<and> (\<exists>s1 s2.
      Mouse_Position_Callback
        (\<lambda>xoffset yoffset c. c\<lparr>Yaw := Yaw c + xoffset * MouseSensitivity c,
                                 Pitch := Pitch c + yoffset * MouseSensitivity c\<rparr>) 100 200
        (ViewManager_init None
           \<lparr>Position = Vec3 0 0 0, Front = Vec3 0 0 (- 1), Up = Vec3 0 1 0, Zoom = 45,
            MovementSpeed = 5 / 2, Yaw = - 90, Pitch = 0, MouseSensitivity = 1 / 10\<rparr>) = Inr s1
    \<and> gLastX s1 = 100 \<and> gLastY s1 = 200 \<and> \<not> gFirstMouse s1
    \<and> map_option Yaw (g_pCamera s1) = Some (- 90) \<and> map_option Pitch (g_pCamera s1) = Some 0
    \<and> Mouse_Position_Callback
        (\<lambda>xoffset yoffset c. c\<lparr>Yaw := Yaw c + xoffset * MouseSensitivity c,
                                 Pitch := Pitch c + yoffset * MouseSensitivity c\<rparr>) 110 190 s1
        = Inr s2
    \<and> gLastX s2 = 110 \<and> gLastY s2 = 190
    \<and> map_option Yaw (g_pCamera s2) = Some (- 89) \<and> map_option Pitch (g_pCamera s2) = Some 1)"
  using Mouse_Position_Callback_first_and_second [of
      "ViewManager_init None
           \<lparr>Position = Vec3 0 0 0, Front = Vec3 0 0 (- 1), Up = Vec3 0 1 0, Zoom = 45,
            MovementSpeed = 5 / 2, Yaw = - 90, Pitch = 0, MouseSensitivity = 1 / 10\<rparr>"
      "\<lparr>Position = Vec3 0 5 12, Front = Vec3 0 (- 1 / 2) (- 2), Up = Vec3 0 1 0, Zoom = 80,
        MovementSpeed = 20, Yaw = - 90, Pitch = 0, MouseSensitivity = 1 / 10\<rparr>"
      100 200 110 190
      "\<lambda>xoffset yoffset c. c\<lparr>Yaw := Yaw c + xoffset * MouseSensitivity c,
                                 Pitch := Pitch c + yoffset * MouseSensitivity c\<rparr>"]
  by (auto simp: ViewManager_init_def cursor_coordinate_100 cursor_coordinate_200
      cursor_coordinate_110 cursor_coordinate_190 float32_100 float32_200
      float32_110 float32_190 float_zero float_10)

subsection \<open>View and projection\<close>

lemma navigate_cong:
  "\<forall>k. k \<noteq> GLFW_KEY_P \<and> k \<noteq> GLFW_KEY_O \<longrightarrow> pressed1 k = pressed2 k \<Longrightarrow>
   navigate pk pressed1 dt c = navigate pk pressed2 dt c"
  by (simp add: navigate_def)

lemma ProcessKeyboardEvents_camera:
  "g_pCamera s = Some c \<Longrightarrow>
   ProcessKeyboardEvents pk pressed s
     = s\<lparr>windowShouldClose := (pressed GLFW_KEY_ESCAPE \<or> windowShouldClose s),
         g_pCamera := Some (navigate pk pressed (gDeltaTime s) c),
         bOrthographicProjection := toggle_projection pressed (bOrthographicProjection s)\<rparr>"
  by (cases "pressed GLFW_KEY_ESCAPE") (simp_all add: ProcessKeyboardEvents_def Let_def)

text \<open>One frame, with a camera: the state after \<open>PrepareSceneView\<close>, and the three writes
  it appends to the sink.\<close>

lemma PrepareSceneView_result:
  assumes "g_pCamera s = Some c"
  shows "PrepareSceneView pk gvm W H t pressed s =
     Inr (s\<lparr>gDeltaTime := t - gLastFrame s, gLastFrame := t,
           windowShouldClose := (pressed GLFW_KEY_ESCAPE \<or> windowShouldClose s),
           g_pCamera := Some (navigate pk pressed (t - gLastFrame s) c),
           bOrthographicProjection := toggle_projection pressed (bOrthographicProjection s),
           vm_pShaderManager := map_option (\<lambda>sink. sink @
            [(''view'', UMat4 (gvm (navigate pk pressed (t - gLastFrame s) c))),
             (''projection'', UMat4 (if toggle_projection pressed (bOrthographicProjection s)
                     then glm_ortho (orthographic_volume (real_of_int W / real_of_int H))
                     else glm_perspective (glm_radians (Zoom (navigate pk pressed (t - gLastFrame s) c)))
                            (real_of_int W / real_of_int H) (1 / 10) 100)),
             (''viewPosition'', UVec3 (Position (navigate pk pressed (t - gLastFrame s) c)))])
             (vm_pShaderManager s)\<rparr>)"
proof -
  let ?s1 = "s\<lparr>gDeltaTime := t - gLastFrame s, gLastFrame := t\<rparr>"
  have cam1: "g_pCamera ?s1 = Some c" using assms by simp
  show ?thesis
    unfolding PrepareSceneView_def Let_def ProcessKeyboardEvents_camera [OF cam1]
    by (cases "vm_pShaderManager s")
       (simp_all add: setValue_def g_ViewName_def g_ProjectionName_def)
qed

lemma orthographic_volume_bounds:
  "orthographic_volume aspect =
     \<lparr>o_left = - (10 * aspect) / 2, o_right = (10 * aspect) / 2, o_bottom = - 5, o_top = 5,
      o_zNear = 1 / 10, o_zFar = 100\<rparr>"
  by (simp add: orthographic_volume_def Let_def)

text \<open>
  Claim C6, as the claim states it: in orthographic mode the bounds come from a vertical
  half-height of 10 units. At the aspect ratio 1000 / 800 the top bound of the volume is
  not 10 and the bottom bound is not -10.
\<close>

theorem orthographic_half_height_is_not_10:
  "\<not> (o_top (orthographic_volume (1000 / 800)) = 10
      \<or> o_bottom (orthographic_volume (1000 / 800)) = - 10)"
  by (simp add: orthographic_volume_def Let_def)

text \<open>
  Claim C6, amended. In every frame rendered with a camera and a shader manager, the
  projection written to the sink is, in orthographic mode, the orthographic matrix of the
  volume with a fixed vertical full height of 10 units (bottom -5, top 5, so a half-height
  of 5), left and right at minus and plus half of \<open>orthoWidth = orthoHeight * aspect\<close>, near
  plane 0.1 and far plane 100, where aspect is \<^verbatim>\<open>WINDOW_WIDTH / WINDOW_HEIGHT\<close> (the height
  not being 0, where the quotient of the model and the one of \<^verbatim>\<open>float\<close> part); the width of
  the volume is its height times the aspect ratio for every aspect ratio. In perspective
  mode it is the perspective matrix with the camera's zoom, in radians, as field of view,
  the same aspect ratio and the same near and far planes.
\<close>

theorem PrepareSceneView_projection:
  assumes cam: "g_pCamera s = Some c" and sm: "vm_pShaderManager s = Some sink"
    and height: "H \<noteq> 0"
  shows "\<exists>s' c' sink'.
      PrepareSceneView pk gvm W H t pressed s = Inr s'
    \<and> g_pCamera s' = Some c' \<and> vm_pShaderManager s' = Some sink'
    \<and> current_uniform sink' ''projection''
        = Some (UMat4 (if bOrthographicProjection s'
                       then glm_ortho (orthographic_volume (real_of_int W / real_of_int H))
                       else glm_perspective (glm_radians (Zoom c'))
                              (real_of_int W / real_of_int H) (1 / 10) 100))
    \<and> orthographic_volume aspect
        = \<lparr>o_left = - (10 * aspect) / 2, o_right = (10 * aspect) / 2,
           o_bottom = - 5, o_top = 5, o_zNear = 1 / 10, o_zFar = 100\<rparr>
    \<and> o_right (orthographic_volume aspect) - o_left (orthographic_volume aspect)
        = (o_top (orthographic_volume aspect) - o_bottom (orthographic_volume aspect)) * aspect"
  unfolding PrepareSceneView_result [OF cam] orthographic_volume_bounds
  by (simp add: sm current_uniform_append)

text \<open>An instance: the first frame after the constructor with the key O pressed, on a
  window of 1000 by 800.\<close>

theorem PrepareSceneView_projection_witness:
  "\<exists>s'. PrepareSceneView (\<lambda>d dt c. c) (\<lambda>c. glm_translate (Position c)) 1000 800 1
          (\<lambda>k. k = GLFW_KEY_O)
          (ViewManager_init (Some [])
             \<lparr>Position = Vec3 0 0 0, Front = Vec3 0 0 (- 1), Up = Vec3 0 1 0, Zoom = 45,
              MovementSpeed = 5 / 2, Yaw = - 90, Pitch = 0, MouseSensitivity = 1 / 10\<rparr>) = Inr s'
     \<and> bOrthographicProjection s'
     \<and> map_option (\<lambda>sink'. current_uniform sink' ''projection'') (vm_pShaderManager s')
         = Some (Some (UMat4 (glm_ortho \<lparr>o_left = - (25 / 4), o_right = 25 / 4, o_bottom = - 5,
                   o_top = 5, o_zNear = 1 / 10, o_zFar = 100\<rparr>)))"
  using PrepareSceneView_projection [of
      "ViewManager_init (Some [])
             \<lparr>Position = Vec3 0 0 0, Front = Vec3 0 0 (- 1), Up = Vec3 0 1 0, Zoom = 45,
              MovementSpeed = 5 / 2, Yaw = - 90, Pitch = 0, MouseSensitivity = 1 / 10\<rparr>"
      "\<lparr>Position = Vec3 0 5 12, Front = Vec3 0 (- 1 / 2) (- 2), Up = Vec3 0 1 0, Zoom = 80,
        MovementSpeed = 20, Yaw = - 90, Pitch = 0, MouseSensitivity = 1 / 10\<rparr>"
      "[]" 800 "\<lambda>d dt c. c" "\<lambda>c. glm_translate (Position c)" 1000 1 "\<lambda>k. k = GLFW_KEY_O" "5 / 4"]
  by (auto simp: ViewManager_init_def toggle_projection_def PrepareSceneView_result
      orthographic_volume_bounds)

text \<open>
  Claim C7. For every camera state, two frames rendered from states that differ only in
  the projection flag, with key states that differ only in the keys P and O, both
  complete and leave the same camera; the view matrix their sinks hold is the same, the
  sinks agree on every write other than the one to \<open>projection\<close>, and the final states
  agree in every field other than the flag and the sink. Where the two frames end in
  different modes, the projection matrices they wrote differ.
\<close>

theorem projection_toggle_leaves_view:
  assumes cam: "g_pCamera s = Some c"
    and keys: "\<forall>k. k \<noteq> GLFW_KEY_P \<and> k \<noteq> GLFW_KEY_O \<longrightarrow> pressed1 k = pressed2 k"
  shows "\<exists>s1 s2.
      PrepareSceneView pk gvm W H t pressed1 (s\<lparr>bOrthographicProjection := b1\<rparr>) = Inr s1
    \<and> PrepareSceneView pk gvm W H t pressed2 (s\<lparr>bOrthographicProjection := b2\<rparr>) = Inr s2
    \<and> g_pCamera s1 = g_pCamera s2
    \<and> map_option (\<lambda>sink. current_uniform sink g_ViewName) (vm_pShaderManager s1)
        = map_option (\<lambda>sink. current_uniform sink g_ViewName) (vm_pShaderManager s2)
    \<and> map_option (filter (\<lambda>e. fst e \<noteq> g_ProjectionName)) (vm_pShaderManager s1)
        = map_option (filter (\<lambda>e. fst e \<noteq> g_ProjectionName)) (vm_pShaderManager s2)
    \<and> s1\<lparr>bOrthographicProjection := b, vm_pShaderManager := sm\<rparr>
        = s2\<lparr>bOrthographicProjection := b, vm_pShaderManager := sm\<rparr>
    \<and> (bOrthographicProjection s1 \<noteq> bOrthographicProjection s2 \<and> vm_pShaderManager s \<noteq> None
         \<longrightarrow> map_option (\<lambda>sink. current_uniform sink g_ProjectionName) (vm_pShaderManager s1)
           \<noteq> map_option (\<lambda>sink. current_uniform sink g_ProjectionName) (vm_pShaderManager s2))"
proof -
  have cam1: "g_pCamera (s\<lparr>bOrthographicProjection := b1\<rparr>) = Some c"
    and cam2: "g_pCamera (s\<lparr>bOrthographicProjection := b2\<rparr>) = Some c"
    using cam by simp_all
  have esc: "pressed1 GLFW_KEY_ESCAPE = pressed2 GLFW_KEY_ESCAPE" using keys by simp
  have nav: "navigate pk pressed1 dt c = navigate pk pressed2 dt c" for dt
    using keys by (rule navigate_cong)
  show ?thesis
    unfolding PrepareSceneView_result [OF cam1] PrepareSceneView_result [OF cam2]
    by (cases "vm_pShaderManager s")
       (auto simp: esc nav g_ViewName_def g_ProjectionName_def current_uniform_append
          glm_ortho_neq_perspective glm_ortho_neq_perspective [symmetric])
qed

text \<open>An instance: from the constructor's state, one frame with the key P pressed and one
  with the key O pressed, both with W held; the camera's \<open>ProcessKeyboard\<close> steps the
  position by the elapsed time along Z and \<open>GetViewMatrix\<close> translates by the position.\<close>

theorem projection_toggle_leaves_view_witness:
  "\<exists>s1 s2.
      PrepareSceneView (\<lambda>d dt c. c\<lparr>Position := Vec3 0 5 (12 - dt)\<rparr>)
        (\<lambda>c. glm_translate (Position c)) 1000 800 1
        (\<lambda>k. k = GLFW_KEY_P \<or> k = GLFW_KEY_W)
        (ViewManager_init (Some [])
           \<lparr>Position = Vec3 0 0 0, Front = Vec3 0 0 (- 1), Up = Vec3 0 1 0, Zoom = 45,
            MovementSpeed = 5 / 2, Yaw = - 90, Pitch = 0, MouseSensitivity = 1 / 10\<rparr>) = Inr s1
    \<and> PrepareSceneView (\<lambda>d dt c. c\<lparr>Position := Vec3 0 5 (12 - dt)\<rparr>)
        (\<lambda>c. glm_translate (Position c)) 1000 800 1
        (\<lambda>k. k = GLFW_KEY_O \<or> k = GLFW_KEY_W)
        (ViewManager_init (Some [])
           \<lparr>Position = Vec3 0 0 0, Front = Vec3 0 0 (- 1), Up = Vec3 0 1 0, Zoom = 45,
            MovementSpeed = 5 / 2, Yaw = - 90, Pitch = 0, MouseSensitivity = 1 / 10\<rparr>) = Inr s2
    \<and> \<not> bOrthographicProjection s1 \<and> bOrthographicProjection s2
    \<and> map_option (\<lambda>sink. current_uniform sink ''view'') (vm_pShaderManager s1)
        = Some (Some (UMat4 (glm_translate (Vec3 0 5 11))))
    \<and> map_option (\<lambda>sink. current_uniform sink ''view'') (vm_pShaderManager s2)
        = Some (Some (UMat4 (glm_translate (Vec3 0 5 11))))
    \<and> map_option (\<lambda>sink. current_uniform sink ''projection'') (vm_pShaderManager s1)
        \<noteq> map_option (\<lambda>sink. current_uniform sink ''projection'') (vm_pShaderManager s2)"
  using projection_toggle_leaves_view [of
      "ViewManager_init (Some [])
           \<lparr>Position = Vec3 0 0 0, Front = Vec3 0 0 (- 1), Up = Vec3 0 1 0, Zoom = 45,
            MovementSpeed = 5 / 2, Yaw = - 90, Pitch = 0, MouseSensitivity = 1 / 10\<rparr>"
      "\<lparr>Position = Vec3 0 5 12, Front = Vec3 0 (- 1 / 2) (- 2), Up = Vec3 0 1 0, Zoom = 80,
        MovementSpeed = 20, Yaw = - 90, Pitch = 0, MouseSensitivity = 1 / 10\<rparr>"
      "\<lambda>k. k = GLFW_KEY_P \<or> k = GLFW_KEY_W" "\<lambda>k. k = GLFW_KEY_O \<or> k = GLFW_KEY_W"
      "\<lambda>d dt c. c\<lparr>Position := Vec3 0 5 (12 - dt)\<rparr>" "\<lambda>c. glm_translate (Position c)"
      1000 800 1 False False, where b = False and sm = None]
  by (auto simp: ViewManager_init_def toggle_projection_def navigate_def PrepareSceneView_result
      current_uniform_append g_ViewName_def g_ProjectionName_def glm_ortho_neq_perspective
      glm_ortho_neq_perspective [symmetric])

end
